theory Spec2Isabelle
  imports Main "HOL-Library.Sublist" "HOL-Library.Word"
begin

section \<open>JavaScript values that reach the handler\<close>

text \<open>
  The handler of \<^verbatim>\<open>netlify/functions/seatsio-handler.js\<close> reads three kinds of
  data: the inbound event, the process environment and what \<^verbatim>\<open>JSON.parse\<close> returns.
  A parsed JSON document is a tree. A number is kept as the text that JavaScript's
  number-to-string conversion gives it (\<^verbatim>\<open>0\<close> for both zeros, \<^verbatim>\<open>Infinity\<close> for an
  overflowing literal): truthiness, template literals and \<^verbatim>\<open>JSON.stringify\<close> are the
  only things the handler does with a number, and all three are determined by that text.
  An object is the list of its own properties in enumeration order. The JavaScript value
  \<^verbatim>\<open>undefined\<close> is \<open>None\<close> of an option type. Strings are sequences of 8-bit
  code units, with one exception: \<^verbatim>\<open>btoa\<close> is the only operation of the handler
  whose outcome depends on a code unit above 0xFF, so the string it encodes, the
  reservation-API secret key, is a sequence of 16-bit code units.
\<close>

datatype json =
    JNull
  | JBool bool
  | JNumber string
  | JString string
  | JArray "json list"
  | JObject "(string \<times> json) list"

type_synonym jsvalue = "json option"

text \<open>Truthiness, as \<^verbatim>\<open>!x\<close> and \<^verbatim>\<open>x || y\<close> test it.\<close>

fun truthy :: "jsvalue \<Rightarrow> bool" where
  "truthy None = False"
| "truthy (Some JNull) = False"
| "truthy (Some (JBool b)) = b"
| "truthy (Some (JNumber n)) = (n \<noteq> ''0'' \<and> n \<noteq> ''NaN'')"
| "truthy (Some (JString s)) = (s \<noteq> [])"
| "truthy (Some (JArray xs)) = True"
| "truthy (Some (JObject kvs)) = True"

text \<open>
  Reading a property whose name no built-in prototype defines (\<^verbatim>\<open>action\<close>,
  \<^verbatim>\<open>seatId\<close>, \<^verbatim>\<open>holdToken\<close>): an object gives its own property, every
  other value that has properties gives \<^verbatim>\<open>undefined\<close>, and \<^verbatim>\<open>null\<close> throws a
  TypeError. \<open>Inl\<close> carries the message of the error thrown, in the engine's
  wording: \<open>get_property\<close> is the member access \<^verbatim>\<open>x.name\<close>, \<open>destructure\<close> is
  \<^verbatim>\<open>const { name } = x\<close>, whose message quotes the source text \<open>src\<close> of \<^verbatim>\<open>x\<close>.
\<close>

fun own_property :: "json \<Rightarrow> string \<Rightarrow> jsvalue" where
  "own_property (JObject kvs) k = map_of kvs k"
| "own_property JNull k = None"
| "own_property (JBool b) k = None"
| "own_property (JNumber n) k = None"
| "own_property (JString s) k = None"
| "own_property (JArray xs) k = None"

definition get_property :: "json \<Rightarrow> string \<Rightarrow> string + jsvalue" where
  "get_property x k =
     (if x = JNull
      then Inl (''Cannot read properties of null (reading '' @ [CHR 0x27] @ k @ [CHR 0x27] @ '')'')
      else Inr (own_property x k))"

definition destructure :: "string \<Rightarrow> json \<Rightarrow> string \<Rightarrow> string + jsvalue" where
  "destructure src x k =
     (if x = JNull
      then Inl (''Cannot destructure property '' @ [CHR 0x27] @ k @ [CHR 0x27] @ '' of '' @
                [CHR 0x27] @ src @ [CHR 0x27] @ '' as it is null.'')
      else Inr (own_property x k))"

text \<open>
  String conversion, as a template literal \<^verbatim>\<open>${x}\<close> performs it. An array is joined
  with commas, \<^verbatim>\<open>null\<close> elements giving the empty string. An object answers
  \<^verbatim>\<open>[object Object]\<close> through \<^verbatim>\<open>Object.prototype.toString\<close>, unless it has an own
  property named \<^verbatim>\<open>toString\<close>: a parsed property is never callable, the inherited
  \<^verbatim>\<open>valueOf\<close> returns the object itself, and the conversion throws a TypeError.
\<close>

fun ToString :: "json \<Rightarrow> string + string"
  and join_elements :: "json list \<Rightarrow> string + string" where
  "ToString JNull = Inr ''null''"
| "ToString (JBool b) = Inr (if b then ''true'' else ''false'')"
| "ToString (JNumber n) = Inr n"
| "ToString (JString s) = Inr s"
| "ToString (JArray xs) = join_elements xs"
| "ToString (JObject kvs) =
     (if ''toString'' \<in> set (map fst kvs)
      then Inl ''Cannot convert object to primitive value''
      else Inr ''[object Object]'')"
| "join_elements [] = Inr []"
| "join_elements (x # xs) =
     (case (if x = JNull then Inr [] else ToString x) of
        Inl e \<Rightarrow> Inl e
      | Inr s \<Rightarrow>
          (if xs = [] then Inr s
           else (case join_elements xs of
                   Inl e \<Rightarrow> Inl e
                 | Inr t \<Rightarrow> Inr (s @ '','' @ t))))"

text \<open>String concatenation and template literals turn an unset variable into the text \<^verbatim>\<open>undefined\<close>.\<close>

fun string_of :: "string option \<Rightarrow> string" where
  "string_of None = ''undefined''"
| "string_of (Some s) = s"

section \<open>\<^verbatim>\<open>JSON.stringify\<close>\<close>

definition hex_digit :: "nat \<Rightarrow> char" where
  "hex_digit n = ''0123456789abcdef'' ! (n mod 16)"

text \<open>
  The quote and the backslash are escaped, the control characters below 0x20 become
  their short escape or \<^verbatim>\<open>\u00xx\<close>, everything else is copied.
\<close>

definition escape_char :: "char \<Rightarrow> string" where
  "escape_char c =
     (let n = (of_char c :: nat) in
      if n = 0x22 then [CHR 0x5C, CHR 0x22]
      else if n = 0x5C then [CHR 0x5C, CHR 0x5C]
      else if n = 0x08 then [CHR 0x5C, CHR ''b'']
      else if n = 0x09 then [CHR 0x5C, CHR ''t'']
      else if n = 0x0A then [CHR 0x5C, CHR ''n'']
      else if n = 0x0C then [CHR 0x5C, CHR ''f'']
      else if n = 0x0D then [CHR 0x5C, CHR ''r'']
      else if n < 0x20 then
        [CHR 0x5C, CHR ''u'', CHR ''0'', CHR ''0'', hex_digit (n div 16), hex_digit (n mod 16)]
      else [c])"

definition QuoteJSONString :: "string \<Rightarrow> string" where
  "QuoteJSONString s = [CHR 0x22] @ concat (map escape_char s) @ [CHR 0x22]"

fun join :: "string \<Rightarrow> string list \<Rightarrow> string" where
  "join sep [] = []"
| "join sep [x] = x"
| "join sep (x # y # ys) = x @ sep @ join sep (y # ys)"

text \<open>Without an indent argument no white space is written. A number that is not finite is written \<^verbatim>\<open>null\<close>.\<close>

fun JSON_stringify :: "json \<Rightarrow> string" where
  "JSON_stringify JNull = ''null''"
| "JSON_stringify (JBool b) = (if b then ''true'' else ''false'')"
| "JSON_stringify (JNumber n) =
     (if n = ''Infinity'' \<or> n = ''-Infinity'' \<or> n = ''NaN'' then ''null'' else n)"
| "JSON_stringify (JString s) = QuoteJSONString s"
| "JSON_stringify (JArray xs) = ''['' @ join '','' (map JSON_stringify xs) @ '']''"
| "JSON_stringify (JObject kvs) =
     ''{'' @ join '','' (map (\<lambda>kv. QuoteJSONString (fst kv) @ '':'' @ JSON_stringify (snd kv)) kvs) @ ''}''"

text \<open>
  An object literal may hold \<^verbatim>\<open>undefined\<close> values; \<^verbatim>\<open>JSON.stringify\<close> leaves those
  properties out.
\<close>

fun defined_properties :: "(string \<times> jsvalue) list \<Rightarrow> (string \<times> json) list" where
  "defined_properties [] = []"
| "defined_properties ((k, None) # kvs) = defined_properties kvs"
| "defined_properties ((k, Some v) # kvs) = (k, v) # defined_properties kvs"

section \<open>\<^verbatim>\<open>btoa\<close>\<close>

definition base64_digit :: "nat \<Rightarrow> char" where
  "base64_digit n =
     ''ABCDEFGHIJKLMNOPQRSTUVWXYZabcdefghijklmnopqrstuvwxyz0123456789+/'' ! (n mod 64)"

fun base64 :: "nat list \<Rightarrow> string" where
  "base64 [] = []"
| "base64 [a] = [base64_digit (a div 4), base64_digit ((a mod 4) * 16), CHR ''='', CHR ''='']"
| "base64 [a, b] =
     [base64_digit (a div 4), base64_digit ((a mod 4) * 16 + b div 16),
      base64_digit ((b mod 16) * 4), CHR ''='']"
| "base64 (a # b # c # rest) =
     [base64_digit (a div 4), base64_digit ((a mod 4) * 16 + b div 16),
      base64_digit ((b mod 16) * 4 + c div 64), base64_digit (c mod 64)] @ base64 rest"

text \<open>
  A string of 16-bit code units; \<open>units s\<close> is the 8-bit string \<open>s\<close> as such a
  string. \<^verbatim>\<open>btoa\<close> throws an InvalidCharacterError, with the message
  \<^verbatim>\<open>Invalid character\<close>, on a string with a code unit above 0xFF.
\<close>

type_synonym code_units = "16 word list"

definition units :: "string \<Rightarrow> code_units" where
  "units s = map of_char s"

definition latin1 :: "code_units \<Rightarrow> bool" where
  "latin1 s \<longleftrightarrow> (\<forall>c \<in> set s. c \<le> 0xFF)"

definition btoa :: "code_units \<Rightarrow> string + string" where
  "btoa s = (if latin1 s then Inr (base64 (map unat s)) else Inl ''Invalid character'')"

text \<open>\<^verbatim>\<open>SEATSIO_SECRET_KEY + ':'\<close>, where an unset variable reads \<^verbatim>\<open>undefined\<close>.\<close>

fun key_text :: "code_units option \<Rightarrow> code_units" where
  "key_text None = units ''undefined''"
| "key_text (Some s) = s"

section \<open>The handler\<close>

text \<open>
  The inbound event, the three environment variables, an outbound \<^verbatim>\<open>fetch\<close> call
  and what \<^verbatim>\<open>fetch\<close> resolves to. A header or a variable that is not set is
  \<open>None\<close>. A response's body may fail to read; \<open>Inl\<close> is the error's message.
\<close>

record event =
  httpMethod :: string
  headers :: "string \<Rightarrow> string option"
  body :: "string option"

record env =
  SEATSIO_SECRET_KEY :: "code_units option"
  SEATSIO_EVENT_KEY :: "string option"
  GHL_WEBHOOK_SECRET :: "string option"

record request =
  url :: string
  req_method :: string
  req_headers :: "(string \<times> string) list"
  req_body :: "string option"

record upstream =
  ok :: bool
  body_text :: "string + string"

text \<open>
  What the handler returns; the 401 response has no \<^verbatim>\<open>headers\<close> property.
\<close>

record response =
  statusCode :: nat
  res_headers :: "(string \<times> string) list option"
  res_body :: string

text \<open>
  The two functions of the platform whose results the handler cannot compute itself:
  \<^verbatim>\<open>JSON.parse\<close>, which returns the parsed value or throws a SyntaxError, and
  \<^verbatim>\<open>fetch\<close>, which resolves to the upstream's response or rejects. They are
  parameters of the model.
\<close>

record platform =
  JSON_parse :: "string \<Rightarrow> string + json"
  fetch :: "request \<Rightarrow> string + upstream"

text \<open>
  One invocation: the response returned, the outbound calls made, in order, and the
  errors written by \<^verbatim>\<open>console.error\<close>.
\<close>

record outcome =
  response :: response
  calls :: "request list"
  logged :: "string list"

definition corsHeaders :: "(string \<times> string) list" where
  "corsHeaders =
     [(''Access-Control-Allow-Origin'', ''*''),
      (''Access-Control-Allow-Headers'', ''Content-Type, Authorization''),
      (''Access-Control-Allow-Methods'', ''POST, OPTIONS'')]"

text \<open>\<^verbatim>\<open>`Basic ${btoa(SEATSIO_SECRET_KEY + ':')}`\<close>, lines 49 and 82.\<close>

definition basic_authorization :: "env \<Rightarrow> string + string" where
  "basic_authorization e =
     (case btoa (key_text (SEATSIO_SECRET_KEY e) @ units '':'') of
        Inl err \<Rightarrow> Inl err
      | Inr credential \<Rightarrow> Inr (''Basic '' @ credential))"

text \<open>\<^verbatim>\<open>`Bearer ${GHL_WEBHOOK_SECRET}`\<close>\<close>

definition bearer :: "env \<Rightarrow> string" where
  "bearer e = ''Bearer '' @ string_of (GHL_WEBHOOK_SECRET e)"

text \<open>\<^verbatim>\<open>response.text()\<close> and \<^verbatim>\<open>response.json()\<close>\<close>

definition response_json :: "platform \<Rightarrow> upstream \<Rightarrow> string + json" where
  "response_json P r = (case body_text r of Inl e \<Rightarrow> Inl e | Inr t \<Rightarrow> JSON_parse P t)"

text \<open>
  The statements of the \<^verbatim>\<open>try\<close> block return the calls made and either the
  response returned (\<open>Inr\<close>) or the message of the error thrown (\<open>Inl\<close>).
  Action 1, lines 44 to 63. The argument of \<^verbatim>\<open>fetch\<close> is built first: when
  \<^verbatim>\<open>btoa\<close> throws, no call is made.
\<close>

definition hold_token_request :: "string \<Rightarrow> request" where
  "hold_token_request authorization =
     \<lparr>url = ''https://api.seats.io/hold-tokens'', req_method = ''POST'',
      req_headers = [(''Authorization'', authorization)], req_body = None\<rparr>"

definition createHoldToken :: "platform \<Rightarrow> env \<Rightarrow> request list \<times> (string + response)" where
  "createHoldToken P e =
     (case basic_authorization e of
        Inl err \<Rightarrow> ([], Inl err)
      | Inr authorization \<Rightarrow>
          ([hold_token_request authorization],
           (case fetch P (hold_token_request authorization) of
              Inl err \<Rightarrow> Inl err
            | Inr r \<Rightarrow>
                if \<not> ok r then
                  (case body_text r of
                     Inl err \<Rightarrow> Inl err
                   | Inr t \<Rightarrow> Inl (''seats.io API error: '' @ t))
                else
                  (case response_json P r of
                     Inl err \<Rightarrow> Inl err
                   | Inr j \<Rightarrow>
                       (case destructure ''(intermediate value)'' j ''holdToken'' of
                          Inl err \<Rightarrow> Inl err
                        | Inr holdToken \<Rightarrow>
                            Inr \<lparr>statusCode = 200, res_headers = Some corsHeaders,
                                 res_body = JSON_stringify (JObject (defined_properties
                                   [(''holdToken'', holdToken),
                                    (''eventKey'', map_option JString (SEATSIO_EVENT_KEY e))]))\<rparr>)))))"

text \<open>Action 2, lines 66 to 99. The outbound call of line 78:\<close>

definition book_request :: "env \<Rightarrow> string \<Rightarrow> json \<Rightarrow> json \<Rightarrow> request" where
  "book_request e authorization seatId holdToken =
     \<lparr>url = ''https://api.seats.io/events/'' @ string_of (SEATSIO_EVENT_KEY e) @ ''/actions/book'',
      req_method = ''POST'',
      req_headers = [(''Content-Type'', ''application/json''),
                     (''Authorization'', authorization)],
      req_body = Some (JSON_stringify
        (JObject [(''objects'', JArray [seatId]), (''holdToken'', holdToken)]))\<rparr>"

text \<open>Lines 78 to 98: the booking call and the answer built from its result.\<close>

definition book :: "platform \<Rightarrow> env \<Rightarrow> json \<Rightarrow> json \<Rightarrow> request list \<times> (string + response)" where
  "book P e seatId holdToken =
     (case basic_authorization e of
        Inl err \<Rightarrow> ([], Inl err)
      | Inr authorization \<Rightarrow>
          ([book_request e authorization seatId holdToken],
           (case fetch P (book_request e authorization seatId holdToken) of
              Inl err \<Rightarrow> Inl err
            | Inr r \<Rightarrow>
                if \<not> ok r then
                  (case body_text r of
                     Inl err \<Rightarrow> Inl err
                   | Inr t \<Rightarrow> Inl (''seats.io API error during booking: '' @ t))
                else
                  (case ToString seatId of
                     Inl err \<Rightarrow> Inl err
                   | Inr s \<Rightarrow>
                       Inr \<lparr>statusCode = 200, res_headers = Some corsHeaders,
                            res_body = JSON_stringify (JObject
                              [(''success'', JBool True),
                               (''message'', JString (''Seat '' @ s @ '' booked successfully.''))])\<rparr>))))"

text \<open>
  Lines 68 to 76, then the booking. An \<^verbatim>\<open>undefined\<close> value is falsy, so the last
  case below is never reached.
\<close>

definition bookSeat :: "platform \<Rightarrow> env \<Rightarrow> event \<Rightarrow> json \<Rightarrow> request list \<times> (string + response)" where
  "bookSeat P e ev b =
     (if headers ev ''authorization'' \<noteq> Some (bearer e) then
        ([], Inr \<lparr>statusCode = 401, res_headers = None, res_body = ''Unauthorized''\<rparr>)
      else
        (case destructure ''body'' b ''seatId'' of
           Inl err \<Rightarrow> ([], Inl err)
         | Inr seatId \<Rightarrow>
             (case destructure ''body'' b ''holdToken'' of
                Inl err \<Rightarrow> ([], Inl err)
              | Inr holdToken \<Rightarrow>
                  if \<not> truthy seatId \<or> \<not> truthy holdToken then
                    ([], Inl ''Missing required parameters: seatId or holdToken.'')
                  else
                    (case (seatId, holdToken) of
                       (Some s, Some h) \<Rightarrow> book P e s h
                     | _ \<Rightarrow> ([], Inl ''Missing required parameters: seatId or holdToken.'')))))"

text \<open>Line 40: \<^verbatim>\<open>event.body || '{}'\<close>\<close>

definition body_or_default :: "event \<Rightarrow> string" where
  "body_or_default ev = (case body ev of None \<Rightarrow> ''{}'' | Some s \<Rightarrow> if s = [] then ''{}'' else s)"

text \<open>The \<^verbatim>\<open>try\<close> block, lines 40 to 102.\<close>

definition try_block :: "platform \<Rightarrow> env \<Rightarrow> event \<Rightarrow> request list \<times> (string + response)" where
  "try_block P e ev =
     (case JSON_parse P (body_or_default ev) of
        Inl err \<Rightarrow> ([], Inl err)
      | Inr b \<Rightarrow>
          (case get_property b ''action'' of
             Inl err \<Rightarrow> ([], Inl err)
           | Inr action \<Rightarrow>
               if action = Some (JString ''createHoldToken'') then createHoldToken P e
               else if action = Some (JString ''bookSeat'') then bookSeat P e ev b
               else ([], Inl ''Invalid action specified in request body.'')))"

text \<open>The \<^verbatim>\<open>catch\<close> clause, lines 104 to 112.\<close>

definition error_response :: "string \<Rightarrow> response" where
  "error_response message =
     \<lparr>statusCode = 500, res_headers = Some corsHeaders,
      res_body = JSON_stringify (JObject [(''error'', JString message)])\<rparr>"

definition handler :: "platform \<Rightarrow> env \<Rightarrow> event \<Rightarrow> outcome" where
  "handler P e ev =
     (if httpMethod ev = ''OPTIONS'' then
        \<lparr>response = \<lparr>statusCode = 204, res_headers = Some corsHeaders, res_body = []\<rparr>,
         calls = [], logged = []\<rparr>
      else
        (case try_block P e ev of
           (cs, Inr r) \<Rightarrow> \<lparr>response = r, calls = cs, logged = []\<rparr>
         | (cs, Inl message) \<Rightarrow>
             \<lparr>response = error_response message, calls = cs, logged = [message]\<rparr>))"

section \<open>What the claims are stated over\<close>

text \<open>
  A request that reaches the dispatch with parsed body \<open>b\<close> and action \<open>a\<close>: its
  method is not the preflight method (line 24), its body parses (line 40) and the parsed
  value has the property \<^verbatim>\<open>action\<close> with the string \<open>a\<close> as value (lines 41, 44, 66).
\<close>

definition action_request :: "platform \<Rightarrow> event \<Rightarrow> json \<Rightarrow> string \<Rightarrow> bool" where
  "action_request P ev b a \<longleftrightarrow>
     httpMethod ev \<noteq> ''OPTIONS'' \<and> JSON_parse P (body_or_default ev) = Inr b \<and>
     own_property b ''action'' = Some (JString a)"

text \<open>
  A string that JSON writes as it is, between two quotes: no quote, no backslash and no
  control character in it.
\<close>

definition plain :: "string \<Rightarrow> bool" where
  "plain s \<longleftrightarrow>
     (\<forall>c \<in> set s. 0x20 \<le> (of_char c :: nat) \<and> (of_char c :: nat) \<noteq> 0x22 \<and>
        (of_char c :: nat) \<noteq> 0x5C)"

text \<open>The test of line 69 passes.\<close>

definition authorized :: "env \<Rightarrow> event \<Rightarrow> bool" where
  "authorized e ev \<longleftrightarrow> headers ev ''authorization'' = Some (bearer e)"

text \<open>
  The errors thrown inside the \<^verbatim>\<open>try\<close> block, one rule for each place of the source
  that can throw, stated on what the request, the environment and the platform give:
  \<open>raises P e ev m\<close> when handling \<open>ev\<close> throws an error with message \<open>m\<close>.
\<close>

inductive raises :: "platform \<Rightarrow> env \<Rightarrow> event \<Rightarrow> string \<Rightarrow> bool"
  for P :: platform and e :: env and ev :: event where
  line_40_parse:
    "httpMethod ev \<noteq> ''OPTIONS'' \<Longrightarrow> JSON_parse P (body_or_default ev) = Inl m \<Longrightarrow>
     raises P e ev m"
| line_41_null:
    "httpMethod ev \<noteq> ''OPTIONS'' \<Longrightarrow> JSON_parse P (body_or_default ev) = Inr JNull \<Longrightarrow>
     raises P e ev
       (''Cannot read properties of null (reading '' @ [CHR 0x27] @ ''action'' @ [CHR 0x27] @ '')'')"
| line_49_btoa:
    "action_request P ev b ''createHoldToken'' \<Longrightarrow> basic_authorization e = Inl m \<Longrightarrow>
     raises P e ev m"
| line_45_fetch:
    "action_request P ev b ''createHoldToken'' \<Longrightarrow> basic_authorization e = Inr a \<Longrightarrow>
     fetch P (hold_token_request a) = Inl m \<Longrightarrow> raises P e ev m"
| line_54_text:
    "action_request P ev b ''createHoldToken'' \<Longrightarrow> basic_authorization e = Inr a \<Longrightarrow>
     fetch P (hold_token_request a) = Inr r \<Longrightarrow> \<not> ok r \<Longrightarrow> body_text r = Inl m \<Longrightarrow>
     raises P e ev m"
| line_54_throw:
    "action_request P ev b ''createHoldToken'' \<Longrightarrow> basic_authorization e = Inr a \<Longrightarrow>
     fetch P (hold_token_request a) = Inr r \<Longrightarrow> \<not> ok r \<Longrightarrow> body_text r = Inr t \<Longrightarrow>
     raises P e ev (''seats.io API error: '' @ t)"
| line_57_body:
    "action_request P ev b ''createHoldToken'' \<Longrightarrow> basic_authorization e = Inr a \<Longrightarrow>
     fetch P (hold_token_request a) = Inr r \<Longrightarrow> ok r \<Longrightarrow> body_text r = Inl m \<Longrightarrow>
     raises P e ev m"
| line_57_json:
    "action_request P ev b ''createHoldToken'' \<Longrightarrow> basic_authorization e = Inr a \<Longrightarrow>
     fetch P (hold_token_request a) = Inr r \<Longrightarrow> ok r \<Longrightarrow> body_text r = Inr t \<Longrightarrow>
     JSON_parse P t = Inl m \<Longrightarrow> raises P e ev m"
| line_57_null:
    "action_request P ev b ''createHoldToken'' \<Longrightarrow> basic_authorization e = Inr a \<Longrightarrow>
     fetch P (hold_token_request a) = Inr r \<Longrightarrow> ok r \<Longrightarrow> body_text r = Inr t \<Longrightarrow>
     JSON_parse P t = Inr JNull \<Longrightarrow>
     raises P e ev
       (''Cannot destructure property '' @ [CHR 0x27] @ ''holdToken'' @ [CHR 0x27] @ '' of '' @
        [CHR 0x27] @ ''(intermediate value)'' @ [CHR 0x27] @ '' as it is null.'')"
| line_75_throw:
    "action_request P ev b ''bookSeat'' \<Longrightarrow> authorized e ev \<Longrightarrow>
     \<not> truthy (own_property b ''seatId'') \<or> \<not> truthy (own_property b ''holdToken'') \<Longrightarrow>
     raises P e ev ''Missing required parameters: seatId or holdToken.''"
| line_82_btoa:
    "action_request P ev b ''bookSeat'' \<Longrightarrow> authorized e ev \<Longrightarrow>
     truthy (own_property b ''seatId'') \<Longrightarrow> truthy (own_property b ''holdToken'') \<Longrightarrow>
     basic_authorization e = Inl m \<Longrightarrow> raises P e ev m"
| line_78_fetch:
    "action_request P ev b ''bookSeat'' \<Longrightarrow> authorized e ev \<Longrightarrow>
     own_property b ''seatId'' = Some s \<Longrightarrow> truthy (Some s) \<Longrightarrow>
     own_property b ''holdToken'' = Some h \<Longrightarrow> truthy (Some h) \<Longrightarrow>
     basic_authorization e = Inr a \<Longrightarrow> fetch P (book_request e a s h) = Inl m \<Longrightarrow>
     raises P e ev m"
| line_91_text:
    "action_request P ev b ''bookSeat'' \<Longrightarrow> authorized e ev \<Longrightarrow>
     own_property b ''seatId'' = Some s \<Longrightarrow> truthy (Some s) \<Longrightarrow>
     own_property b ''holdToken'' = Some h \<Longrightarrow> truthy (Some h) \<Longrightarrow>
     basic_authorization e = Inr a \<Longrightarrow> fetch P (book_request e a s h) = Inr r \<Longrightarrow>
     \<not> ok r \<Longrightarrow> body_text r = Inl m \<Longrightarrow> raises P e ev m"
| line_91_throw:
    "action_request P ev b ''bookSeat'' \<Longrightarrow> authorized e ev \<Longrightarrow>
     own_property b ''seatId'' = Some s \<Longrightarrow> truthy (Some s) \<Longrightarrow>
     own_property b ''holdToken'' = Some h \<Longrightarrow> truthy (Some h) \<Longrightarrow>
     basic_authorization e = Inr a \<Longrightarrow> fetch P (book_request e a s h) = Inr r \<Longrightarrow>
     \<not> ok r \<Longrightarrow> body_text r = Inr t \<Longrightarrow>
     raises P e ev (''seats.io API error during booking: '' @ t)"
| line_97_template:
    "action_request P ev b ''bookSeat'' \<Longrightarrow> authorized e ev \<Longrightarrow>
     own_property b ''seatId'' = Some s \<Longrightarrow> truthy (Some s) \<Longrightarrow>
     own_property b ''holdToken'' = Some h \<Longrightarrow> truthy (Some h) \<Longrightarrow>
     basic_authorization e = Inr a \<Longrightarrow> fetch P (book_request e a s h) = Inr r \<Longrightarrow>
     ok r \<Longrightarrow> ToString s = Inl m \<Longrightarrow> raises P e ev m"
| line_102_throw:
    "httpMethod ev \<noteq> ''OPTIONS'' \<Longrightarrow> JSON_parse P (body_or_default ev) = Inr b \<Longrightarrow>
     b \<noteq> JNull \<Longrightarrow> own_property b ''action'' \<noteq> Some (JString ''createHoldToken'') \<Longrightarrow>
     own_property b ''action'' \<noteq> Some (JString ''bookSeat'') \<Longrightarrow>
     raises P e ev ''Invalid action specified in request body.''"

code_pred raises .

section \<open>A concrete deployment\<close>

text \<open>
  Environments, a parser and upstreams to run the handler on. \<open>sample_parse\<close>
  agrees with \<^verbatim>\<open>JSON.parse\<close> on the documents it lists (the number \<^verbatim>\<open>1e999\<close> is
  beyond the doubles and reads as \<^verbatim>\<open>Infinity\<close>); the text \<^verbatim>\<open>{bad\<close> is the one
  malformed body used below. The secret key of \<open>snowman_env\<close> has the character
  U+2603 in it.
\<close>

definition sample_env :: env where
  "sample_env =
     \<lparr>SEATSIO_SECRET_KEY = Some (units ''sk_live_9f2''), SEATSIO_EVENT_KEY = Some ''spring-gala'',
      GHL_WEBHOOK_SECRET = Some ''whsec_41c''\<rparr>"

definition other_env :: env where
  "other_env =
     \<lparr>SEATSIO_SECRET_KEY = Some (units ''sk_test_000''), SEATSIO_EVENT_KEY = Some ''autumn-ball'',
      GHL_WEBHOOK_SECRET = Some ''whsec_41c''\<rparr>"

definition snowman_env :: env where
  "snowman_env =
     \<lparr>SEATSIO_SECRET_KEY = Some (units ''sk_'' @ [0x2603]), SEATSIO_EVENT_KEY = Some ''spring-gala'',
      GHL_WEBHOOK_SECRET = Some ''whsec_41c''\<rparr>"

definition sample_parse :: "string \<Rightarrow> string + json" where
  \<open>sample_parse s =
     (if s = ''{}'' then Inr (JObject [])
      else if s = ''{"action":"createHoldToken"}'' then
        Inr (JObject [(''action'', JString ''createHoldToken'')])
      else if s = ''{"action":"cancelSeat"}'' then
        Inr (JObject [(''action'', JString ''cancelSeat'')])
      else if s = ''{"action":"bookSeat"}'' then
        Inr (JObject [(''action'', JString ''bookSeat'')])
      else if s = ''{"action":"bookSeat","holdToken":"tok-123"}'' then
        Inr (JObject [(''action'', JString ''bookSeat''), (''holdToken'', JString ''tok-123'')])
      else if s = ''{"action":"bookSeat","seatId":"A-12","holdToken":"tok-123"}'' then
        Inr (JObject [(''action'', JString ''bookSeat''), (''seatId'', JString ''A-12''),
                      (''holdToken'', JString ''tok-123'')])
      else if s = ''{"action":"bookSeat","seatId":"","holdToken":"tok-123"}'' then
        Inr (JObject [(''action'', JString ''bookSeat''), (''seatId'', JString []),
                      (''holdToken'', JString ''tok-123'')])
      else if s = ''{"action":"bookSeat","seatId":1e999,"holdToken":"tok-123"}'' then
        Inr (JObject [(''action'', JString ''bookSeat''), (''seatId'', JNumber ''Infinity''),
                      (''holdToken'', JString ''tok-123'')])
      else if s = ''{"action":"bookSeat","seatId":0,"holdToken":"tok-123"}'' then
        Inr (JObject [(''action'', JString ''bookSeat''), (''seatId'', JNumber ''0''),
                      (''holdToken'', JString ''tok-123'')])
      else if s = ''{"action":"bookSeat","seatId":{"toString":1},"holdToken":"tok-123"}'' then
        Inr (JObject [(''action'', JString ''bookSeat''),
                      (''seatId'', JObject [(''toString'', JNumber ''1'')]),
                      (''holdToken'', JString ''tok-123'')])
      else if s = ''{"holdToken":"tok-123"}'' then
        Inr (JObject [(''holdToken'', JString ''tok-123'')])
      else Inl ''Unexpected token b in JSON at position 1'')\<close>

text \<open>
  An upstream that accepts both calls, one that refuses them, and one that answers
  every call with a hold token.
\<close>

definition accepting_fetch :: "request \<Rightarrow> string + upstream" where
  \<open>accepting_fetch r =
     (if url r = ''https://api.seats.io/hold-tokens''
      then Inr \<lparr>ok = True, body_text = Inr ''{"holdToken":"tok-123"}''\<rparr>
      else Inr \<lparr>ok = True, body_text = Inr ''{}''\<rparr>)\<close>

definition refusing_fetch :: "request \<Rightarrow> string + upstream" where
  "refusing_fetch r = Inr \<lparr>ok = False, body_text = Inr ''hold token expired''\<rparr>"

definition issuing_fetch :: "request \<Rightarrow> string + upstream" where
  \<open>issuing_fetch r = Inr \<lparr>ok = True, body_text = Inr ''{"holdToken":"tok-123"}''\<rparr>\<close>

definition sample_platform :: platform where
  "sample_platform = \<lparr>JSON_parse = sample_parse, fetch = accepting_fetch\<rparr>"

definition refusing_platform :: platform where
  "refusing_platform = \<lparr>JSON_parse = sample_parse, fetch = refusing_fetch\<rparr>"

definition issuing_platform :: platform where
  "issuing_platform = \<lparr>JSON_parse = sample_parse, fetch = issuing_fetch\<rparr>"

text \<open>Requests: with the webhook's credential, without it, and a preflight.\<close>

definition webhook_post :: "string \<Rightarrow> event" where
  "webhook_post b =
     \<lparr>httpMethod = ''POST'',
      headers = (\<lambda>h. if h = ''authorization'' then Some ''Bearer whsec_41c'' else None),
      body = Some b\<rparr>"

definition browser_post :: "string option \<Rightarrow> event" where
  "browser_post b = \<lparr>httpMethod = ''POST'', headers = (\<lambda>h. None), body = b\<rparr>"

definition lowercase_scheme_post :: "string \<Rightarrow> event" where
  "lowercase_scheme_post b =
     \<lparr>httpMethod = ''POST'',
      headers = (\<lambda>h. if h = ''authorization'' then Some ''bearer whsec_41c'' else None),
      body = Some b\<rparr>"

definition preflight :: "string \<Rightarrow> event" where
  "preflight b = \<lparr>httpMethod = ''OPTIONS'', headers = (\<lambda>h. None), body = Some b\<rparr>"

section \<open>How a request reaches its branch\<close>

lemma action_request_not_null:
  "action_request P ev b a \<Longrightarrow> b \<noteq> JNull"
  by (auto simp: action_request_def)

lemma try_block_action:
  "action_request P ev b a \<Longrightarrow>
   try_block P e ev =
     (if a = ''createHoldToken'' then createHoldToken P e
      else if a = ''bookSeat'' then bookSeat P e ev b
      else ([], Inl ''Invalid action specified in request body.''))"
  by (cases b) (auto simp: action_request_def try_block_def get_property_def)

lemma handler_not_preflight:
  "httpMethod ev \<noteq> ''OPTIONS'' \<Longrightarrow>
   handler P e ev =
     (case try_block P e ev of
        (cs, Inr r) \<Rightarrow> \<lparr>response = r, calls = cs, logged = []\<rparr>
      | (cs, Inl message) \<Rightarrow>
          \<lparr>response = error_response message, calls = cs, logged = [message]\<rparr>)"
  by (simp add: handler_def)

lemma handler_bookSeat:
  assumes "action_request P ev b ''bookSeat''"
  shows "handler P e ev =
     (case bookSeat P e ev b of
        (cs, Inr r) \<Rightarrow> \<lparr>response = r, calls = cs, logged = []\<rparr>
      | (cs, Inl message) \<Rightarrow>
          \<lparr>response = error_response message, calls = cs, logged = [message]\<rparr>)"
proof -
  have "httpMethod ev \<noteq> ''OPTIONS''"
    using assms by (simp add: action_request_def)
  then show ?thesis
    using try_block_action [OF assms, of e] by (simp add: handler_not_preflight)
qed

lemma handler_createHoldToken:
  assumes "action_request P ev b ''createHoldToken''"
  shows "handler P e ev =
     (case createHoldToken P e of
        (cs, Inr r) \<Rightarrow> \<lparr>response = r, calls = cs, logged = []\<rparr>
      | (cs, Inl message) \<Rightarrow>
          \<lparr>response = error_response message, calls = cs, logged = [message]\<rparr>)"
proof -
  have "httpMethod ev \<noteq> ''OPTIONS''"
    using assms by (simp add: action_request_def)
  then show ?thesis
    using try_block_action [OF assms, of e] by (simp add: handler_not_preflight)
qed

text \<open>Past the test of line 69, a falsy \<^verbatim>\<open>seatId\<close> or \<^verbatim>\<open>holdToken\<close> ends the request.\<close>

lemma bookSeat_falsy:
  assumes "b \<noteq> JNull" and "authorized e ev"
    and "\<not> truthy (own_property b ''seatId'') \<or> \<not> truthy (own_property b ''holdToken'')"
  shows "bookSeat P e ev b = ([], Inl ''Missing required parameters: seatId or holdToken.'')"
  using assms by (simp add: bookSeat_def authorized_def destructure_def)

text \<open>With both values truthy the booking call is made.\<close>

lemma bookSeat_truthy:
  assumes "authorized e ev"
    and "own_property b ''seatId'' = Some s" and "truthy (Some s)"
    and "own_property b ''holdToken'' = Some h" and "truthy (Some h)"
  shows "bookSeat P e ev b = book P e s h"
proof -
  have "b \<noteq> JNull"
    using assms(2) by auto
  then show ?thesis
    using assms by (simp add: bookSeat_def authorized_def destructure_def)
qed

text \<open>The credential of lines 49 and 82.\<close>

lemma basic_authorization_btoa:
  "btoa (key_text (SEATSIO_SECRET_KEY e) @ units '':'') = Inr c \<Longrightarrow>
   basic_authorization e = Inr (''Basic '' @ c)"
  by (simp add: basic_authorization_def)

section \<open>Preflight\<close>

text \<open>
  Claim C7. Every request whose method is \<^verbatim>\<open>OPTIONS\<close> is answered with status 204, an
  empty body and the three CORS headers, and no upstream call is made. The answer is the
  same for every platform \<open>P\<close>, so it does not depend on what \<^verbatim>\<open>JSON.parse\<close> would say
  of the body: the body is not parsed.
\<close>

theorem preflight_no_content:
  "httpMethod ev = ''OPTIONS'' \<Longrightarrow>
   handler P e ev =
     \<lparr>response =
        \<lparr>statusCode = 204,
         res_headers = Some
           [(''Access-Control-Allow-Origin'', ''*''),
            (''Access-Control-Allow-Headers'', ''Content-Type, Authorization''),
            (''Access-Control-Allow-Methods'', ''POST, OPTIONS'')],
         res_body = []\<rparr>,
      calls = [], logged = []\<rparr>"
  by (simp add: handler_def corsHeaders_def)

text \<open>A preflight whose body is not JSON.\<close>

theorem preflight_no_content_witness:
  "httpMethod (preflight ''{bad'') = ''OPTIONS'' \<and>
   JSON_parse sample_platform (body_or_default (preflight ''{bad'')) =
     Inl ''Unexpected token b in JSON at position 1'' \<and>
   handler sample_platform sample_env (preflight ''{bad'') =
     \<lparr>response =
        \<lparr>statusCode = 204,
         res_headers = Some
           [(''Access-Control-Allow-Origin'', ''*''),
            (''Access-Control-Allow-Headers'', ''Content-Type, Authorization''),
            (''Access-Control-Allow-Methods'', ''POST, OPTIONS'')],
         res_body = []\<rparr>,
      calls = [], logged = []\<rparr>"
  using preflight_no_content [of "preflight ''{bad''" sample_platform sample_env]
  by (simp add: preflight_def sample_platform_def sample_parse_def body_or_default_def)

section \<open>Booking: the caller's credential\<close>

text \<open>
  Claim C1. A \<^verbatim>\<open>bookSeat\<close> request whose \<^verbatim>\<open>authorization\<close> header is absent, or is
  any string other than \<^verbatim>\<open>Bearer\<close>, one space and the webhook secret, is answered with
  status 401 and the body \<^verbatim>\<open>Unauthorized\<close>, and no upstream call is made. Nothing is
  assumed of \<^verbatim>\<open>seatId\<close> and \<^verbatim>\<open>holdToken\<close>: the credential is tested first.
\<close>

theorem unauthorized_first:
  assumes "action_request P ev b ''bookSeat''"
    and "headers ev ''authorization'' \<noteq> Some (''Bearer '' @ string_of (GHL_WEBHOOK_SECRET e))"
  shows "handler P e ev =
     \<lparr>response = \<lparr>statusCode = 401, res_headers = None, res_body = ''Unauthorized''\<rparr>,
      calls = [], logged = []\<rparr>"
  using assms(2) by (simp add: handler_bookSeat [OF assms(1)] bookSeat_def bearer_def)

text \<open>The scheme in lower case, and neither \<^verbatim>\<open>seatId\<close> nor \<^verbatim>\<open>holdToken\<close> in the body.\<close>

theorem unauthorized_first_witness:
  \<open>action_request sample_platform (lowercase_scheme_post ''{"action":"bookSeat"}'')
     (JObject [(''action'', JString ''bookSeat'')]) ''bookSeat'' \<and>
   headers (lowercase_scheme_post ''{"action":"bookSeat"}'') ''authorization'' = Some ''bearer whsec_41c'' \<and>
   GHL_WEBHOOK_SECRET sample_env = Some ''whsec_41c'' \<and>
   handler sample_platform sample_env (lowercase_scheme_post ''{"action":"bookSeat"}'') =
     \<lparr>response = \<lparr>statusCode = 401, res_headers = None, res_body = ''Unauthorized''\<rparr>,
      calls = [], logged = []\<rparr>\<close>
proof -
  let ?ev = \<open>lowercase_scheme_post ''{"action":"bookSeat"}''\<close>
  have a: "action_request sample_platform ?ev (JObject [(''action'', JString ''bookSeat'')]) ''bookSeat''"
    by (simp add: action_request_def lowercase_scheme_post_def sample_platform_def
        sample_parse_def body_or_default_def)
  have h: "headers ?ev ''authorization'' \<noteq> Some (''Bearer '' @ string_of (GHL_WEBHOOK_SECRET sample_env))"
    by (simp add: lowercase_scheme_post_def sample_env_def)
  show ?thesis
    using a unauthorized_first [OF a h]
    by (simp add: lowercase_scheme_post_def sample_env_def)
qed

section \<open>Booking: missing parameters\<close>

text \<open>
  Claim C6. A \<^verbatim>\<open>bookSeat\<close> request with the right credential whose body has no
  \<^verbatim>\<open>seatId\<close> or no \<^verbatim>\<open>holdToken\<close> is answered with status 500 and the message
  \<^verbatim>\<open>Missing required parameters: seatId or holdToken.\<close>, and no upstream call is made.
\<close>

theorem missing_parameters:
  assumes "action_request P ev b ''bookSeat''" and "authorized e ev"
    and "own_property b ''seatId'' = None \<or> own_property b ''holdToken'' = None"
  shows "handler P e ev =
     \<lparr>response = \<lparr>statusCode = 500, res_headers = Some corsHeaders,
        res_body = JSON_stringify (JObject
          [(''error'', JString ''Missing required parameters: seatId or holdToken.'')])\<rparr>,
      calls = [], logged = [''Missing required parameters: seatId or holdToken.'']\<rparr>"
proof -
  have "\<not> truthy (own_property b ''seatId'') \<or> \<not> truthy (own_property b ''holdToken'')"
    using assms(3) by auto
  then have "bookSeat P e ev b = ([], Inl ''Missing required parameters: seatId or holdToken.'')"
    using action_request_not_null [OF assms(1)] assms(2) by (rule_tac bookSeat_falsy)
  then show ?thesis
    by (simp add: handler_bookSeat [OF assms(1)] error_response_def)
qed

theorem missing_parameters_witness:
  \<open>action_request sample_platform (webhook_post ''{"action":"bookSeat","holdToken":"tok-123"}'')
     (JObject [(''action'', JString ''bookSeat''), (''holdToken'', JString ''tok-123'')]) ''bookSeat'' \<and>
   authorized sample_env (webhook_post ''{"action":"bookSeat","holdToken":"tok-123"}'') \<and>
   res_body (response (handler sample_platform sample_env
     (webhook_post ''{"action":"bookSeat","holdToken":"tok-123"}''))) =
     ''{"error":"Missing required parameters: seatId or holdToken."}'' \<and>
   statusCode (response (handler sample_platform sample_env
     (webhook_post ''{"action":"bookSeat","holdToken":"tok-123"}''))) = 500 \<and>
   calls (handler sample_platform sample_env
     (webhook_post ''{"action":"bookSeat","holdToken":"tok-123"}'')) = []\<close>
proof -
  let ?ev = \<open>webhook_post ''{"action":"bookSeat","holdToken":"tok-123"}''\<close>
  let ?b = "JObject [(''action'', JString ''bookSeat''), (''holdToken'', JString ''tok-123'')]"
  have a: "action_request sample_platform ?ev ?b ''bookSeat''"
    by (simp add: action_request_def webhook_post_def sample_platform_def
        sample_parse_def body_or_default_def)
  have h: "authorized sample_env ?ev"
    by (simp add: authorized_def bearer_def webhook_post_def sample_env_def)
  have m: "own_property ?b ''seatId'' = None \<or> own_property ?b ''holdToken'' = None"
    by simp
  show ?thesis
    using a h missing_parameters [OF a h m]
    by (simp add: QuoteJSONString_def escape_char_def)
qed

text \<open>
  Claim C10. With the right credential, a \<^verbatim>\<open>seatId\<close> or a \<^verbatim>\<open>holdToken\<close> that is
  present but is the empty string, the number 0, \<^verbatim>\<open>false\<close> or \<^verbatim>\<open>null\<close> counts as
  missing: the same 500 answer, and no upstream call.
\<close>

theorem falsy_parameters:
  assumes "action_request P ev b ''bookSeat''" and "authorized e ev"
    and "own_property b ''seatId'' \<in> {Some (JString []), Some (JNumber ''0''), Some (JBool False), Some JNull}
       \<or> own_property b ''holdToken'' \<in> {Some (JString []), Some (JNumber ''0''), Some (JBool False), Some JNull}"
  shows "handler P e ev =
     \<lparr>response = \<lparr>statusCode = 500, res_headers = Some corsHeaders,
        res_body = JSON_stringify (JObject
          [(''error'', JString ''Missing required parameters: seatId or holdToken.'')])\<rparr>,
      calls = [], logged = [''Missing required parameters: seatId or holdToken.'']\<rparr>"
proof -
  have "\<not> truthy (own_property b ''seatId'') \<or> \<not> truthy (own_property b ''holdToken'')"
    using assms(3) by auto
  then have "bookSeat P e ev b = ([], Inl ''Missing required parameters: seatId or holdToken.'')"
    using action_request_not_null [OF assms(1)] assms(2) by (rule_tac bookSeat_falsy)
  then show ?thesis
    by (simp add: handler_bookSeat [OF assms(1)] error_response_def)
qed

theorem falsy_parameters_witness:
  \<open>action_request sample_platform
     (webhook_post ''{"action":"bookSeat","seatId":0,"holdToken":"tok-123"}'')
     (JObject [(''action'', JString ''bookSeat''), (''seatId'', JNumber ''0''),
               (''holdToken'', JString ''tok-123'')]) ''bookSeat'' \<and>
   authorized sample_env (webhook_post ''{"action":"bookSeat","seatId":0,"holdToken":"tok-123"}'') \<and>
   res_body (response (handler sample_platform sample_env
     (webhook_post ''{"action":"bookSeat","seatId":0,"holdToken":"tok-123"}''))) =
     ''{"error":"Missing required parameters: seatId or holdToken."}'' \<and>
   statusCode (response (handler sample_platform sample_env
     (webhook_post ''{"action":"bookSeat","seatId":0,"holdToken":"tok-123"}''))) = 500 \<and>
   calls (handler sample_platform sample_env
     (webhook_post ''{"action":"bookSeat","seatId":0,"holdToken":"tok-123"}'')) = []\<close>
proof -
  let ?ev = \<open>webhook_post ''{"action":"bookSeat","seatId":0,"holdToken":"tok-123"}''\<close>
  let ?b = "JObject [(''action'', JString ''bookSeat''), (''seatId'', JNumber ''0''),
                     (''holdToken'', JString ''tok-123'')]"
  have a: "action_request sample_platform ?ev ?b ''bookSeat''"
    by (simp add: action_request_def webhook_post_def sample_platform_def
        sample_parse_def body_or_default_def)
  have h: "authorized sample_env ?ev"
    by (simp add: authorized_def bearer_def webhook_post_def sample_env_def)
  have m: "own_property ?b ''seatId'' \<in> {Some (JString []), Some (JNumber ''0''), Some (JBool False), Some JNull}
     \<or> own_property ?b ''holdToken'' \<in> {Some (JString []), Some (JNumber ''0''), Some (JBool False), Some JNull}"
    by simp
  show ?thesis
    using a h falsy_parameters [OF a h m]
    by (simp add: QuoteJSONString_def escape_char_def)
qed

section \<open>Unrecognised actions\<close>

text \<open>
  Claim C8. A request that is not a preflight and whose body parses to an object whose
  \<^verbatim>\<open>action\<close> is neither \<^verbatim>\<open>createHoldToken\<close> nor \<^verbatim>\<open>bookSeat\<close>, or that has no
  \<^verbatim>\<open>action\<close>, is answered with status 500 and the message
  \<^verbatim>\<open>Invalid action specified in request body.\<close>, and no upstream call is made. A
  missing or empty body is replaced by the text \<^verbatim>\<open>{}\<close> before parsing, which
  \<^verbatim>\<open>JSON.parse\<close> reads as the empty object: such a request gets the same answer.
\<close>

theorem invalid_action:
  assumes "httpMethod ev \<noteq> ''OPTIONS''"
  shows "(JSON_parse P (body_or_default ev) = Inr (JObject kvs) \<and>
          map_of kvs ''action'' \<noteq> Some (JString ''createHoldToken'') \<and>
          map_of kvs ''action'' \<noteq> Some (JString ''bookSeat'') \<longrightarrow>
          handler P e ev =
            \<lparr>response = \<lparr>statusCode = 500, res_headers = Some corsHeaders,
               res_body = JSON_stringify (JObject
                 [(''error'', JString ''Invalid action specified in request body.'')])\<rparr>,
             calls = [], logged = [''Invalid action specified in request body.'']\<rparr>) \<and>
         (body ev = None \<or> body ev = Some [] \<longrightarrow> body_or_default ev = ''{}'') \<and>
         ((body ev = None \<or> body ev = Some []) \<and> JSON_parse P ''{}'' = Inr (JObject []) \<longrightarrow>
          handler P e ev =
            \<lparr>response = \<lparr>statusCode = 500, res_headers = Some corsHeaders,
               res_body = JSON_stringify (JObject
                 [(''error'', JString ''Invalid action specified in request body.'')])\<rparr>,
             calls = [], logged = [''Invalid action specified in request body.'']\<rparr>)"
proof -
  have object: "handler P e ev =
      \<lparr>response = error_response ''Invalid action specified in request body.'',
       calls = [], logged = [''Invalid action specified in request body.'']\<rparr>"
    if "JSON_parse P (body_or_default ev) = Inr (JObject xs)"
      and "map_of xs ''action'' \<noteq> Some (JString ''createHoldToken'')"
      and "map_of xs ''action'' \<noteq> Some (JString ''bookSeat'')" for xs
    using that assms by (simp add: handler_not_preflight try_block_def get_property_def)
  have absent: "body_or_default ev = ''{}''" if "body ev = None \<or> body ev = Some []"
    using that by (auto simp: body_or_default_def)
  show ?thesis
    using object [of kvs] object [of "[]"] absent by (auto simp: error_response_def)
qed

text \<open>An action the handler does not know, and a request without a body.\<close>

theorem invalid_action_witness:
  \<open>httpMethod (browser_post (Some ''{"action":"cancelSeat"}'')) \<noteq> ''OPTIONS'' \<and>
   JSON_parse sample_platform (body_or_default (browser_post (Some ''{"action":"cancelSeat"}''))) =
     Inr (JObject [(''action'', JString ''cancelSeat'')]) \<and>
   handler sample_platform sample_env (browser_post (Some ''{"action":"cancelSeat"}'')) =
     \<lparr>response = \<lparr>statusCode = 500, res_headers = Some corsHeaders,
        res_body = ''{"error":"Invalid action specified in request body."}''\<rparr>,
      calls = [], logged = [''Invalid action specified in request body.'']\<rparr> \<and>
   body (browser_post None) = None \<and>
   JSON_parse sample_platform ''{}'' = Inr (JObject []) \<and>
   handler sample_platform sample_env (browser_post None) =
     \<lparr>response = \<lparr>statusCode = 500, res_headers = Some corsHeaders,
        res_body = ''{"error":"Invalid action specified in request body."}''\<rparr>,
      calls = [], logged = [''Invalid action specified in request body.'']\<rparr>\<close>
proof -
  let ?ev = \<open>browser_post (Some ''{"action":"cancelSeat"}'')\<close>
  have m1: "httpMethod ?ev \<noteq> ''OPTIONS''" and m2: "httpMethod (browser_post None) \<noteq> ''OPTIONS''"
    by (simp_all add: browser_post_def)
  have p1: "JSON_parse sample_platform (body_or_default ?ev) =
      Inr (JObject [(''action'', JString ''cancelSeat'')])"
    by (simp add: browser_post_def sample_platform_def sample_parse_def body_or_default_def)
  have p2: "JSON_parse sample_platform ''{}'' = Inr (JObject [])"
    by (simp add: sample_platform_def sample_parse_def)
  have b2: "body (browser_post None) = None"
    by (simp add: browser_post_def)
  show ?thesis
    using m1 p1 p2 b2
      invalid_action [OF m1, of sample_platform "[(''action'', JString ''cancelSeat'')]" sample_env]
      invalid_action [OF m2, of sample_platform "[]" sample_env]
    by (simp add: QuoteJSONString_def escape_char_def)
qed

section \<open>Issuing a hold token\<close>

text \<open>
  Claim C3. On a \<^verbatim>\<open>createHoldToken\<close> request, when the upstream answers the hold-token
  call with a success status and a body \<open>t\<close> that \<^verbatim>\<open>JSON.parse\<close> reads as a document
  \<open>j\<close>, the handler has made that one call and answers with status 200, the three CORS
  headers and the JSON text of an object holding the \<^verbatim>\<open>holdToken\<close> of \<open>j\<close> and the
  configured event key, under the names \<^verbatim>\<open>holdToken\<close> and \<^verbatim>\<open>eventKey\<close>, and nothing
  else. (A property whose value is \<^verbatim>\<open>undefined\<close>, because \<open>j\<close> has no \<^verbatim>\<open>holdToken\<close>
  or the event key is not set, is left out by \<^verbatim>\<open>JSON.stringify\<close>.) The call is made
  with the credential that line 49 builds, \<^verbatim>\<open>Basic\<close> and what \<^verbatim>\<open>btoa\<close> gives.
\<close>

theorem hold_token_issued:
  assumes "action_request P ev b ''createHoldToken''"
    and "btoa (key_text (SEATSIO_SECRET_KEY e) @ units '':'') = Inr c"
    and "fetch P \<lparr>url = ''https://api.seats.io/hold-tokens'', req_method = ''POST'',
           req_headers = [(''Authorization'', ''Basic '' @ c)], req_body = None\<rparr> = Inr r"
    and "ok r" and "body_text r = Inr t" and "JSON_parse P t = Inr j" and "j \<noteq> JNull"
  shows "handler P e ev =
           \<lparr>response =
              \<lparr>statusCode = 200,
               res_headers = Some
                 [(''Access-Control-Allow-Origin'', ''*''),
                  (''Access-Control-Allow-Headers'', ''Content-Type, Authorization''),
                  (''Access-Control-Allow-Methods'', ''POST, OPTIONS'')],
               res_body = JSON_stringify (JObject (defined_properties
                 [(''holdToken'', own_property j ''holdToken''),
                  (''eventKey'', map_option JString (SEATSIO_EVENT_KEY e))]))\<rparr>,
            calls = [\<lparr>url = ''https://api.seats.io/hold-tokens'', req_method = ''POST'',
                      req_headers = [(''Authorization'', ''Basic '' @ c)], req_body = None\<rparr>],
            logged = []\<rparr> \<and>
         (\<forall>h k. own_property j ''holdToken'' = Some h \<and> SEATSIO_EVENT_KEY e = Some k \<longrightarrow>
            res_body (response (handler P e ev)) =
              JSON_stringify (JObject [(''holdToken'', h), (''eventKey'', JString k)]))"
proof -
  let ?a = "''Basic '' @ c"
  have a: "basic_authorization e = Inr ?a"
    using assms(2) by (rule basic_authorization_btoa)
  have "createHoldToken P e =
      ([hold_token_request ?a],
       Inr \<lparr>statusCode = 200, res_headers = Some corsHeaders,
            res_body = JSON_stringify (JObject (defined_properties
              [(''holdToken'', own_property j ''holdToken''),
               (''eventKey'', map_option JString (SEATSIO_EVENT_KEY e))]))\<rparr>)"
    using a assms(3-7)
    by (simp add: createHoldToken_def hold_token_request_def response_json_def destructure_def)
  then have "handler P e ev =
      \<lparr>response = \<lparr>statusCode = 200, res_headers = Some corsHeaders,
         res_body = JSON_stringify (JObject (defined_properties
           [(''holdToken'', own_property j ''holdToken''),
            (''eventKey'', map_option JString (SEATSIO_EVENT_KEY e))]))\<rparr>,
       calls = [hold_token_request ?a], logged = []\<rparr>"
    by (simp add: handler_createHoldToken [OF assms(1)])
  then show ?thesis
    by (auto simp: corsHeaders_def hold_token_request_def)
qed

theorem hold_token_issued_witness:
  \<open>action_request sample_platform (browser_post (Some ''{"action":"createHoldToken"}''))
     (JObject [(''action'', JString ''createHoldToken'')]) ''createHoldToken'' \<and>
   btoa (key_text (SEATSIO_SECRET_KEY sample_env) @ units '':'') = Inr ''c2tfbGl2ZV85ZjI6'' \<and>
   fetch sample_platform
     \<lparr>url = ''https://api.seats.io/hold-tokens'', req_method = ''POST'',
      req_headers = [(''Authorization'', ''Basic c2tfbGl2ZV85ZjI6'')], req_body = None\<rparr> =
     Inr \<lparr>ok = True, body_text = Inr ''{"holdToken":"tok-123"}''\<rparr> \<and>
   JSON_parse sample_platform ''{"holdToken":"tok-123"}'' =
     Inr (JObject [(''holdToken'', JString ''tok-123'')]) \<and>
   SEATSIO_EVENT_KEY sample_env = Some ''spring-gala'' \<and>
   handler sample_platform sample_env (browser_post (Some ''{"action":"createHoldToken"}'')) =
     \<lparr>response =
        \<lparr>statusCode = 200,
         res_headers = Some
           [(''Access-Control-Allow-Origin'', ''*''),
            (''Access-Control-Allow-Headers'', ''Content-Type, Authorization''),
            (''Access-Control-Allow-Methods'', ''POST, OPTIONS'')],
         res_body = ''{"holdToken":"tok-123","eventKey":"spring-gala"}''\<rparr>,
      calls = [\<lparr>url = ''https://api.seats.io/hold-tokens'', req_method = ''POST'',
                req_headers = [(''Authorization'', ''Basic c2tfbGl2ZV85ZjI6'')],
                req_body = None\<rparr>],
      logged = []\<rparr>\<close>
proof -
  let ?ev = \<open>browser_post (Some ''{"action":"createHoldToken"}'')\<close>
  let ?r = \<open>\<lparr>ok = True, body_text = Inr ''{"holdToken":"tok-123"}''\<rparr>\<close>
  let ?j = \<open>JObject [(''holdToken'', JString ''tok-123'')]\<close>
  have a: "action_request sample_platform ?ev
      (JObject [(''action'', JString ''createHoldToken'')]) ''createHoldToken''"
    by (simp add: action_request_def browser_post_def sample_platform_def
        sample_parse_def body_or_default_def)
  have c: "btoa (key_text (SEATSIO_SECRET_KEY sample_env) @ units '':'') = Inr ''c2tfbGl2ZV85ZjI6''"
    by (simp add: sample_env_def btoa_def latin1_def units_def base64_digit_def)
  have f: "fetch sample_platform
      \<lparr>url = ''https://api.seats.io/hold-tokens'', req_method = ''POST'',
       req_headers = [(''Authorization'', ''Basic '' @ ''c2tfbGl2ZV85ZjI6'')], req_body = None\<rparr> =
      Inr ?r"
    by (simp add: sample_platform_def accepting_fetch_def)
  have o: "ok ?r" and t: "body_text ?r = Inr ''{\"holdToken\":\"tok-123\"}''"
    by simp_all
  have j: "JSON_parse sample_platform ''{\"holdToken\":\"tok-123\"}'' = Inr ?j"
    by (simp add: sample_platform_def sample_parse_def)
  have n: "?j \<noteq> JNull"
    by simp
  have k: "SEATSIO_EVENT_KEY sample_env = Some ''spring-gala''"
    by (simp add: sample_env_def)
  show ?thesis
    using a c f j k hold_token_issued [OF a c f o t j n]
    by (simp add: QuoteJSONString_def escape_char_def)
qed

section \<open>An upstream that refuses\<close>

text \<open>
  Claim C4. When the upstream answers the hold-token call or the booking call with a
  status that is not a success, the handler answers with status 500 and an error
  message that ends with the text of the upstream's answer; the call made is the only
  one, it is not repeated. The call \<open>q\<close> is the one made with the credential that
  lines 49 and 82 build, \<^verbatim>\<open>Basic\<close> and what \<^verbatim>\<open>btoa\<close> gives.
\<close>

theorem upstream_refusal:
  assumes "fetch P q = Inr r" and "\<not> ok r" and "body_text r = Inr t"
    and "btoa (key_text (SEATSIO_SECRET_KEY e) @ units '':'') = Inr c"
  shows "(action_request P ev b ''createHoldToken'' \<and> q = hold_token_request (''Basic '' @ c) \<longrightarrow>
          handler P e ev =
            \<lparr>response = \<lparr>statusCode = 500, res_headers = Some corsHeaders,
               res_body = JSON_stringify (JObject
                 [(''error'', JString (''seats.io API error: '' @ t))])\<rparr>,
             calls = [q], logged = [''seats.io API error: '' @ t]\<rparr>) \<and>
         (action_request P ev b ''bookSeat'' \<and> authorized e ev \<and>
          own_property b ''seatId'' = Some s \<and> truthy (Some s) \<and>
          own_property b ''holdToken'' = Some h \<and> truthy (Some h) \<and>
          q = book_request e (''Basic '' @ c) s h \<longrightarrow>
          handler P e ev =
            \<lparr>response = \<lparr>statusCode = 500, res_headers = Some corsHeaders,
               res_body = JSON_stringify (JObject
                 [(''error'', JString (''seats.io API error during booking: '' @ t))])\<rparr>,
             calls = [q], logged = [''seats.io API error during booking: '' @ t]\<rparr>)"
proof (intro conjI impI)
  have a: "basic_authorization e = Inr (''Basic '' @ c)"
    using assms(4) by (rule basic_authorization_btoa)
  assume c: "action_request P ev b ''createHoldToken'' \<and> q = hold_token_request (''Basic '' @ c)"
  then have "createHoldToken P e = ([q], Inl (''seats.io API error: '' @ t))"
    using assms(1-3) a by (simp add: createHoldToken_def)
  then show "handler P e ev =
      \<lparr>response = \<lparr>statusCode = 500, res_headers = Some corsHeaders,
         res_body = JSON_stringify (JObject
           [(''error'', JString (''seats.io API error: '' @ t))])\<rparr>,
       calls = [q], logged = [''seats.io API error: '' @ t]\<rparr>"
    using handler_createHoldToken [of P ev b e] c by (simp add: error_response_def)
next
  assume c: "action_request P ev b ''bookSeat'' \<and> authorized e ev \<and>
      own_property b ''seatId'' = Some s \<and> truthy (Some s) \<and>
      own_property b ''holdToken'' = Some h \<and> truthy (Some h) \<and>
      q = book_request e (''Basic '' @ c) s h"
  then have "bookSeat P e ev b = book P e s h"
    by (simp add: bookSeat_truthy)
  moreover have "book P e s h = ([q], Inl (''seats.io API error during booking: '' @ t))"
    using c assms(1-3) basic_authorization_btoa [OF assms(4)] by (simp add: book_def)
  ultimately show "handler P e ev =
      \<lparr>response = \<lparr>statusCode = 500, res_headers = Some corsHeaders,
         res_body = JSON_stringify (JObject
           [(''error'', JString (''seats.io API error during booking: '' @ t))])\<rparr>,
       calls = [q], logged = [''seats.io API error during booking: '' @ t]\<rparr>"
    using handler_bookSeat [of P ev b e] c by (simp add: error_response_def)
qed

text \<open>Both calls, against the upstream that refuses.\<close>

theorem upstream_refusal_witness:
  \<open>btoa (key_text (SEATSIO_SECRET_KEY sample_env) @ units '':'') = Inr ''c2tfbGl2ZV85ZjI6'' \<and>
   fetch refusing_platform (hold_token_request ''Basic c2tfbGl2ZV85ZjI6'') =
     Inr \<lparr>ok = False, body_text = Inr ''hold token expired''\<rparr> \<and>
   action_request refusing_platform (browser_post (Some ''{"action":"createHoldToken"}''))
     (JObject [(''action'', JString ''createHoldToken'')]) ''createHoldToken'' \<and>
   response (handler refusing_platform sample_env (browser_post (Some ''{"action":"createHoldToken"}''))) =
     \<lparr>statusCode = 500, res_headers = Some corsHeaders,
      res_body = ''{"error":"seats.io API error: hold token expired"}''\<rparr> \<and>
   calls (handler refusing_platform sample_env (browser_post (Some ''{"action":"createHoldToken"}''))) =
     [hold_token_request ''Basic c2tfbGl2ZV85ZjI6''] \<and>
   action_request refusing_platform
     (webhook_post ''{"action":"bookSeat","seatId":"A-12","holdToken":"tok-123"}'')
     (JObject [(''action'', JString ''bookSeat''), (''seatId'', JString ''A-12''),
               (''holdToken'', JString ''tok-123'')]) ''bookSeat'' \<and>
   authorized sample_env (webhook_post ''{"action":"bookSeat","seatId":"A-12","holdToken":"tok-123"}'') \<and>
   response (handler refusing_platform sample_env
     (webhook_post ''{"action":"bookSeat","seatId":"A-12","holdToken":"tok-123"}'')) =
     \<lparr>statusCode = 500, res_headers = Some corsHeaders,
      res_body = ''{"error":"seats.io API error during booking: hold token expired"}''\<rparr> \<and>
   calls (handler refusing_platform sample_env
     (webhook_post ''{"action":"bookSeat","seatId":"A-12","holdToken":"tok-123"}'')) =
     [book_request sample_env ''Basic c2tfbGl2ZV85ZjI6'' (JString ''A-12'') (JString ''tok-123'')]\<close>
proof -
  let ?r = \<open>\<lparr>ok = False, body_text = Inr ''hold token expired''\<rparr>\<close>
  let ?ev1 = \<open>browser_post (Some ''{"action":"createHoldToken"}'')\<close>
  let ?b1 = \<open>JObject [(''action'', JString ''createHoldToken'')]\<close>
  let ?ev2 = \<open>webhook_post ''{"action":"bookSeat","seatId":"A-12","holdToken":"tok-123"}''\<close>
  let ?b2 = \<open>JObject [(''action'', JString ''bookSeat''), (''seatId'', JString ''A-12''),
                     (''holdToken'', JString ''tok-123'')]\<close>
  have f: "fetch refusing_platform q = Inr ?r" for q
    by (simp add: refusing_platform_def refusing_fetch_def)
  have o: "\<not> ok ?r" and t: "body_text ?r = Inr ''hold token expired''"
    by simp_all
  have c: "btoa (key_text (SEATSIO_SECRET_KEY sample_env) @ units '':'') = Inr ''c2tfbGl2ZV85ZjI6''"
    by (simp add: sample_env_def btoa_def latin1_def units_def base64_digit_def)
  have a1: "action_request refusing_platform ?ev1 ?b1 ''createHoldToken''"
    by (simp add: action_request_def browser_post_def refusing_platform_def
        sample_parse_def body_or_default_def)
  have a2: "action_request refusing_platform ?ev2 ?b2 ''bookSeat''"
    by (simp add: action_request_def webhook_post_def refusing_platform_def
        sample_parse_def body_or_default_def)
  have h: "authorized sample_env ?ev2"
    by (simp add: authorized_def bearer_def webhook_post_def sample_env_def)
  have p: "own_property ?b2 ''seatId'' = Some (JString ''A-12'')"
    "own_property ?b2 ''holdToken'' = Some (JString ''tok-123'')"
    "truthy (Some (JString ''A-12''))" "truthy (Some (JString ''tok-123''))"
    by simp_all
  show ?thesis
    using f a1 a2 h p c
      upstream_refusal [OF f o t c, where ev = ?ev1 and b = ?b1]
      upstream_refusal [OF f o t c, where ev = ?ev2 and b = ?b2
        and s = "JString ''A-12''" and h = "JString ''tok-123''"]
    by (simp add: QuoteJSONString_def escape_char_def)
qed

section \<open>Booking a seat\<close>

lemma QuoteJSONString_plain:
  "plain s \<Longrightarrow> QuoteJSONString s = [CHR 0x22] @ s @ [CHR 0x22]"
proof -
  assume "plain s"
  then have "concat (map escape_char s) = s"
    by (induction s) (auto simp: plain_def escape_char_def Let_def)
  then show ?thesis
    by (simp add: QuoteJSONString_def)
qed

lemma handler_book:
  assumes "action_request P ev b ''bookSeat''" and "authorized e ev"
    and "own_property b ''seatId'' = Some s" and "truthy (Some s)"
    and "own_property b ''holdToken'' = Some h" and "truthy (Some h)"
  shows "handler P e ev =
     (case book P e s h of
        (cs, Inr r) \<Rightarrow> \<lparr>response = r, calls = cs, logged = []\<rparr>
      | (cs, Inl message) \<Rightarrow>
          \<lparr>response = error_response message, calls = cs, logged = [message]\<rparr>)"
  using bookSeat_truthy [OF assms(2-6)] by (simp add: handler_bookSeat [OF assms(1)])

text \<open>
  Claim C2, amended. Take a \<^verbatim>\<open>bookSeat\<close> request with the right credential and truthy
  \<^verbatim>\<open>seatId\<close> and \<^verbatim>\<open>holdToken\<close>, and a secret key that \<^verbatim>\<open>btoa\<close> encodes (no
  character above U+00FF). The handler
  makes exactly one outbound call, the booking call, whose body is what
  \<^verbatim>\<open>JSON.stringify\<close> writes for \<^verbatim>\<open>{ objects: [seatId], holdToken }\<close>; two plain strings
  are there letter for letter. When the upstream accepts the call and \<^verbatim>\<open>seatId\<close>
  converts to a string, as every string does, the answer has status 200, the three CORS
  headers and the body \<^verbatim>\<open>{ success: true, message: "Seat <seatId> booked successfully." }\<close>.
\<close>

theorem seat_booked:
  assumes "action_request P ev b ''bookSeat''"
    and "headers ev ''authorization'' = Some (''Bearer '' @ string_of (GHL_WEBHOOK_SECRET e))"
    and "own_property b ''seatId'' = Some s" and "truthy (Some s)"
    and "own_property b ''holdToken'' = Some h" and "truthy (Some h)"
    and "btoa (key_text (SEATSIO_SECRET_KEY e) @ units '':'') = Inr c"
    and "q = \<lparr>url = ''https://api.seats.io/events/'' @ string_of (SEATSIO_EVENT_KEY e) @
                 ''/actions/book'',
               req_method = ''POST'',
               req_headers = [(''Content-Type'', ''application/json''),
                              (''Authorization'', ''Basic '' @ c)],
               req_body = Some (JSON_stringify
                 (JObject [(''objects'', JArray [s]), (''holdToken'', h)]))\<rparr>"
  shows \<open>calls (handler P e ev) = [q] \<and>
         (\<forall>x y. s = JString x \<and> h = JString y \<and> plain x \<and> plain y \<longrightarrow>
            req_body q = Some (''{"objects":["'' @ x @ ''"],"holdToken":"'' @ y @ ''"}'')) \<and>
         (\<forall>r shown. fetch P q = Inr r \<and> ok r \<and> ToString s = Inr shown \<longrightarrow>
            handler P e ev =
              \<lparr>response =
                 \<lparr>statusCode = 200,
                  res_headers = Some
                    [(''Access-Control-Allow-Origin'', ''*''),
                     (''Access-Control-Allow-Headers'', ''Content-Type, Authorization''),
                     (''Access-Control-Allow-Methods'', ''POST, OPTIONS'')],
                  res_body = JSON_stringify (JObject
                    [(''success'', JBool True),
                     (''message'', JString (''Seat '' @ shown @ '' booked successfully.''))])\<rparr>,
               calls = [q], logged = []\<rparr>) \<and>
         (\<forall>x. s = JString x \<longrightarrow> ToString s = Inr x)\<close>
proof -
  have auth: "authorized e ev"
    using assms(2) by (simp add: authorized_def bearer_def)
  have a: "basic_authorization e = Inr (''Basic '' @ c)"
    using assms(7) by (rule basic_authorization_btoa)
  have q: "q = book_request e (''Basic '' @ c) s h"
    using assms(8) by (simp add: book_request_def)
  have h: "handler P e ev =
     (case book P e s h of
        (cs, Inr r) \<Rightarrow> \<lparr>response = r, calls = cs, logged = []\<rparr>
      | (cs, Inl message) \<Rightarrow>
          \<lparr>response = error_response message, calls = cs, logged = [message]\<rparr>)"
    using assms(1) auth assms(3-6) by (rule handler_book)
  have "fst (book P e s h) = [q]"
    using a q by (simp add: book_def)
  then have one: "calls (handler P e ev) = [q]"
    by (cases "book P e s h") (auto simp: h split: sum.splits)
  have keys: \<open>QuoteJSONString ''objects'' = ''"objects"''\<close>
    \<open>QuoteJSONString ''holdToken'' = ''"holdToken"''\<close>
    by (simp_all add: QuoteJSONString_def escape_char_def)
  have verbatim: \<open>req_body q = Some (''{"objects":["'' @ x @ ''"],"holdToken":"'' @ y @ ''"}'')\<close>
    if "s = JString x" and "h = JString y" and "plain x" and "plain y" for x y
    using that assms(8) by (simp add: keys QuoteJSONString_plain)
  have accepted: "handler P e ev =
      \<lparr>response =
         \<lparr>statusCode = 200,
          res_headers = Some
            [(''Access-Control-Allow-Origin'', ''*''),
             (''Access-Control-Allow-Headers'', ''Content-Type, Authorization''),
             (''Access-Control-Allow-Methods'', ''POST, OPTIONS'')],
          res_body = JSON_stringify (JObject
            [(''success'', JBool True),
             (''message'', JString (''Seat '' @ shown @ '' booked successfully.''))])\<rparr>,
       calls = [q], logged = []\<rparr>"
    if "fetch P q = Inr r" and "ok r" and "ToString s = Inr shown" for r shown
    using that a q by (simp add: h book_def corsHeaders_def)
  show ?thesis
    using one verbatim accepted by auto
qed

theorem seat_booked_witness:
  \<open>action_request sample_platform
     (webhook_post ''{"action":"bookSeat","seatId":"A-12","holdToken":"tok-123"}'')
     (JObject [(''action'', JString ''bookSeat''), (''seatId'', JString ''A-12''),
               (''holdToken'', JString ''tok-123'')]) ''bookSeat'' \<and>
   headers (webhook_post ''{"action":"bookSeat","seatId":"A-12","holdToken":"tok-123"}'')
     ''authorization'' = Some ''Bearer whsec_41c'' \<and>
   GHL_WEBHOOK_SECRET sample_env = Some ''whsec_41c'' \<and>
   btoa (key_text (SEATSIO_SECRET_KEY sample_env) @ units '':'') = Inr ''c2tfbGl2ZV85ZjI6'' \<and>
   plain ''A-12'' \<and> plain ''tok-123'' \<and>
   fetch sample_platform
     \<lparr>url = ''https://api.seats.io/events/spring-gala/actions/book'', req_method = ''POST'',
      req_headers = [(''Content-Type'', ''application/json''),
                     (''Authorization'', ''Basic c2tfbGl2ZV85ZjI6'')],
      req_body = Some ''{"objects":["A-12"],"holdToken":"tok-123"}''\<rparr> =
     Inr \<lparr>ok = True, body_text = Inr ''{}''\<rparr> \<and>
   handler sample_platform sample_env
     (webhook_post ''{"action":"bookSeat","seatId":"A-12","holdToken":"tok-123"}'') =
     \<lparr>response =
        \<lparr>statusCode = 200,
         res_headers = Some
           [(''Access-Control-Allow-Origin'', ''*''),
            (''Access-Control-Allow-Headers'', ''Content-Type, Authorization''),
            (''Access-Control-Allow-Methods'', ''POST, OPTIONS'')],
         res_body = ''{"success":true,"message":"Seat A-12 booked successfully."}''\<rparr>,
      calls = [\<lparr>url = ''https://api.seats.io/events/spring-gala/actions/book'',
                req_method = ''POST'',
                req_headers = [(''Content-Type'', ''application/json''),
                               (''Authorization'', ''Basic c2tfbGl2ZV85ZjI6'')],
                req_body = Some ''{"objects":["A-12"],"holdToken":"tok-123"}''\<rparr>],
      logged = []\<rparr>\<close>
proof -
  let ?ev = \<open>webhook_post ''{"action":"bookSeat","seatId":"A-12","holdToken":"tok-123"}''\<close>
  let ?b = \<open>JObject [(''action'', JString ''bookSeat''), (''seatId'', JString ''A-12''),
                    (''holdToken'', JString ''tok-123'')]\<close>
  let ?q = \<open>\<lparr>url = ''https://api.seats.io/events/spring-gala/actions/book'',
      req_method = ''POST'',
      req_headers = [(''Content-Type'', ''application/json''),
                     (''Authorization'', ''Basic c2tfbGl2ZV85ZjI6'')],
      req_body = Some ''{"objects":["A-12"],"holdToken":"tok-123"}''\<rparr>\<close>
  have a: "action_request sample_platform ?ev ?b ''bookSeat''"
    by (simp add: action_request_def webhook_post_def sample_platform_def
        sample_parse_def body_or_default_def)
  have h: "headers ?ev ''authorization'' =
      Some (''Bearer '' @ string_of (GHL_WEBHOOK_SECRET sample_env))"
    by (simp add: webhook_post_def sample_env_def)
  have p: "own_property ?b ''seatId'' = Some (JString ''A-12'')"
    "truthy (Some (JString ''A-12''))"
    "own_property ?b ''holdToken'' = Some (JString ''tok-123'')"
    "truthy (Some (JString ''tok-123''))"
    by simp_all
  have c: "btoa (key_text (SEATSIO_SECRET_KEY sample_env) @ units '':'') = Inr ''c2tfbGl2ZV85ZjI6''"
    by (simp add: sample_env_def btoa_def latin1_def units_def base64_digit_def)
  have q: "?q = \<lparr>url = ''https://api.seats.io/events/'' @
        string_of (SEATSIO_EVENT_KEY sample_env) @ ''/actions/book'',
      req_method = ''POST'',
      req_headers = [(''Content-Type'', ''application/json''),
                     (''Authorization'', ''Basic '' @ ''c2tfbGl2ZV85ZjI6'')],
      req_body = Some (JSON_stringify
        (JObject [(''objects'', JArray [JString ''A-12'']),
                  (''holdToken'', JString ''tok-123'')]))\<rparr>"
    by (simp add: sample_env_def QuoteJSONString_def escape_char_def)
  have f: "fetch sample_platform ?q = Inr \<lparr>ok = True, body_text = Inr ''{}''\<rparr>"
    by (simp add: sample_platform_def accepting_fetch_def)
  have s: "ToString (JString ''A-12'') = Inr ''A-12''"
    by simp
  have pl: "plain ''A-12''" "plain ''tok-123''"
    by (simp_all add: plain_def)
  show ?thesis
    using a h c f s pl seat_booked [OF a h p c q]
    by (simp add: webhook_post_def sample_env_def QuoteJSONString_def escape_char_def)
qed

text \<open>
  The claim as written fails in four ways, each with the right credential and both
  \<^verbatim>\<open>seatId\<close> and \<^verbatim>\<open>holdToken\<close> in the body. With the empty string as \<^verbatim>\<open>seatId\<close> no
  call is made and the answer is a 500. With the object \<^verbatim>\<open>{"toString":1}\<close> the call is
  made and accepted, building the message then throws and the answer is a 500. With the
  number \<^verbatim>\<open>1e999\<close> the call carries \<^verbatim>\<open>null\<close> where the request had the number. With a
  secret key that \<^verbatim>\<open>btoa\<close> cannot encode no call is made and the answer is a 500.
\<close>

theorem seat_booked_counterexample:
  \<open>(action_request sample_platform
      (webhook_post ''{"action":"bookSeat","seatId":"","holdToken":"tok-123"}'')
      (JObject [(''action'', JString ''bookSeat''), (''seatId'', JString []),
                (''holdToken'', JString ''tok-123'')]) ''bookSeat'' \<and>
    authorized sample_env
      (webhook_post ''{"action":"bookSeat","seatId":"","holdToken":"tok-123"}'') \<and>
    handler sample_platform sample_env
      (webhook_post ''{"action":"bookSeat","seatId":"","holdToken":"tok-123"}'') =
      \<lparr>response =
         \<lparr>statusCode = 500, res_headers = Some corsHeaders,
          res_body = ''{"error":"Missing required parameters: seatId or holdToken."}''\<rparr>,
       calls = [], logged = [''Missing required parameters: seatId or holdToken.'']\<rparr>) \<and>
   (action_request sample_platform
      (webhook_post ''{"action":"bookSeat","seatId":{"toString":1},"holdToken":"tok-123"}'')
      (JObject [(''action'', JString ''bookSeat''),
                (''seatId'', JObject [(''toString'', JNumber ''1'')]),
                (''holdToken'', JString ''tok-123'')]) ''bookSeat'' \<and>
    authorized sample_env
      (webhook_post ''{"action":"bookSeat","seatId":{"toString":1},"holdToken":"tok-123"}'') \<and>
    truthy (Some (JObject [(''toString'', JNumber ''1'')])) \<and>
    fetch sample_platform
      \<lparr>url = ''https://api.seats.io/events/spring-gala/actions/book'', req_method = ''POST'',
       req_headers = [(''Content-Type'', ''application/json''),
                      (''Authorization'', ''Basic c2tfbGl2ZV85ZjI6'')],
       req_body = Some ''{"objects":[{"toString":1}],"holdToken":"tok-123"}''\<rparr> =
      Inr \<lparr>ok = True, body_text = Inr ''{}''\<rparr> \<and>
    handler sample_platform sample_env
      (webhook_post ''{"action":"bookSeat","seatId":{"toString":1},"holdToken":"tok-123"}'') =
      \<lparr>response =
         \<lparr>statusCode = 500, res_headers = Some corsHeaders,
          res_body = ''{"error":"Cannot convert object to primitive value"}''\<rparr>,
       calls =
         [\<lparr>url = ''https://api.seats.io/events/spring-gala/actions/book'', req_method = ''POST'',
           req_headers = [(''Content-Type'', ''application/json''),
                          (''Authorization'', ''Basic c2tfbGl2ZV85ZjI6'')],
           req_body = Some ''{"objects":[{"toString":1}],"holdToken":"tok-123"}''\<rparr>],
       logged = [''Cannot convert object to primitive value'']\<rparr>) \<and>
   (action_request sample_platform
      (webhook_post ''{"action":"bookSeat","seatId":1e999,"holdToken":"tok-123"}'')
      (JObject [(''action'', JString ''bookSeat''), (''seatId'', JNumber ''Infinity''),
                (''holdToken'', JString ''tok-123'')]) ''bookSeat'' \<and>
    authorized sample_env
      (webhook_post ''{"action":"bookSeat","seatId":1e999,"holdToken":"tok-123"}'') \<and>
    truthy (Some (JNumber ''Infinity'')) \<and>
    map req_body (calls (handler sample_platform sample_env
      (webhook_post ''{"action":"bookSeat","seatId":1e999,"holdToken":"tok-123"}''))) =
      [Some ''{"objects":[null],"holdToken":"tok-123"}'']) \<and>
   (action_request sample_platform
      (webhook_post ''{"action":"bookSeat","seatId":"A-12","holdToken":"tok-123"}'')
      (JObject [(''action'', JString ''bookSeat''), (''seatId'', JString ''A-12''),
                (''holdToken'', JString ''tok-123'')]) ''bookSeat'' \<and>
    authorized snowman_env
      (webhook_post ''{"action":"bookSeat","seatId":"A-12","holdToken":"tok-123"}'') \<and>
    SEATSIO_SECRET_KEY snowman_env = Some (units ''sk_'' @ [0x2603]) \<and>
    handler sample_platform snowman_env
      (webhook_post ''{"action":"bookSeat","seatId":"A-12","holdToken":"tok-123"}'') =
      \<lparr>response =
         \<lparr>statusCode = 500, res_headers = Some corsHeaders,
          res_body = ''{"error":"Invalid character"}''\<rparr>,
       calls = [], logged = [''Invalid character'']\<rparr>)\<close>
proof -
  let ?ev1 = \<open>webhook_post ''{"action":"bookSeat","seatId":"","holdToken":"tok-123"}''\<close>
  let ?b1 = \<open>JObject [(''action'', JString ''bookSeat''), (''seatId'', JString []),
                     (''holdToken'', JString ''tok-123'')]\<close>
  let ?ev2 = \<open>webhook_post ''{"action":"bookSeat","seatId":{"toString":1},"holdToken":"tok-123"}''\<close>
  let ?s2 = \<open>JObject [(''toString'', JNumber ''1'')]\<close>
  let ?b2 = \<open>JObject [(''action'', JString ''bookSeat''), (''seatId'', ?s2),
                     (''holdToken'', JString ''tok-123'')]\<close>
  let ?ev3 = \<open>webhook_post ''{"action":"bookSeat","seatId":1e999,"holdToken":"tok-123"}''\<close>
  let ?b3 = \<open>JObject [(''action'', JString ''bookSeat''), (''seatId'', JNumber ''Infinity''),
                     (''holdToken'', JString ''tok-123'')]\<close>
  let ?ev4 = \<open>webhook_post ''{"action":"bookSeat","seatId":"A-12","holdToken":"tok-123"}''\<close>
  let ?b4 = \<open>JObject [(''action'', JString ''bookSeat''), (''seatId'', JString ''A-12''),
                     (''holdToken'', JString ''tok-123'')]\<close>
  have a1: "action_request sample_platform ?ev1 ?b1 ''bookSeat''"
    and a2: "action_request sample_platform ?ev2 ?b2 ''bookSeat''"
    and a3: "action_request sample_platform ?ev3 ?b3 ''bookSeat''"
    and a4: "action_request sample_platform ?ev4 ?b4 ''bookSeat''"
    by (simp_all add: action_request_def webhook_post_def sample_platform_def
        sample_parse_def body_or_default_def)
  have h: "authorized sample_env (webhook_post x)" "authorized snowman_env (webhook_post x)" for x
    by (simp_all add: authorized_def bearer_def webhook_post_def sample_env_def snowman_env_def)
  have c: "basic_authorization sample_env = Inr ''Basic c2tfbGl2ZV85ZjI6''"
    by (simp add: basic_authorization_def sample_env_def btoa_def latin1_def units_def
        base64_digit_def)
  have d: "basic_authorization snowman_env = Inl ''Invalid character''"
    by (simp add: basic_authorization_def snowman_env_def btoa_def latin1_def units_def)
  have f: "fetch sample_platform (book_request sample_env x s y) =
      Inr \<lparr>ok = True, body_text = Inr ''{}''\<rparr>" for x s y
    by (simp add: sample_platform_def accepting_fetch_def book_request_def sample_env_def)
  have f2: "fetch sample_platform
      \<lparr>url = ''https://api.seats.io/events/spring-gala/actions/book'', req_method = ''POST'',
       req_headers = [(''Content-Type'', ''application/json''),
                      (''Authorization'', ''Basic c2tfbGl2ZV85ZjI6'')],
       req_body = Some ''{\"objects\":[{\"toString\":1}],\"holdToken\":\"tok-123\"}''\<rparr> =
      Inr \<lparr>ok = True, body_text = Inr ''{}''\<rparr>"
    by (simp add: sample_platform_def accepting_fetch_def)
  have "handler sample_platform sample_env ?ev1 =
      \<lparr>response = error_response ''Missing required parameters: seatId or holdToken.'',
       calls = [], logged = [''Missing required parameters: seatId or holdToken.'']\<rparr>"
    using bookSeat_falsy [of ?b1 sample_env ?ev1 sample_platform] h
    by (simp add: handler_bookSeat [OF a1])
  then have one: "handler sample_platform sample_env ?ev1 =
      \<lparr>response =
         \<lparr>statusCode = 500, res_headers = Some corsHeaders,
          res_body = ''{\"error\":\"Missing required parameters: seatId or holdToken.\"}''\<rparr>,
       calls = [], logged = [''Missing required parameters: seatId or holdToken.'']\<rparr>"
    by (simp add: error_response_def QuoteJSONString_def escape_char_def)
  have "handler sample_platform sample_env ?ev2 =
      \<lparr>response = error_response ''Cannot convert object to primitive value'',
       calls = [book_request sample_env ''Basic c2tfbGl2ZV85ZjI6'' ?s2 (JString ''tok-123'')],
       logged = [''Cannot convert object to primitive value'']\<rparr>"
    using c f by (simp add: handler_book [OF a2 h(1)] book_def)
  then have two: "handler sample_platform sample_env ?ev2 =
      \<lparr>response =
         \<lparr>statusCode = 500, res_headers = Some corsHeaders,
          res_body = ''{\"error\":\"Cannot convert object to primitive value\"}''\<rparr>,
       calls =
         [\<lparr>url = ''https://api.seats.io/events/spring-gala/actions/book'', req_method = ''POST'',
           req_headers = [(''Content-Type'', ''application/json''),
                          (''Authorization'', ''Basic c2tfbGl2ZV85ZjI6'')],
           req_body = Some ''{\"objects\":[{\"toString\":1}],\"holdToken\":\"tok-123\"}''\<rparr>],
       logged = [''Cannot convert object to primitive value'']\<rparr>"
    by (simp add: error_response_def book_request_def sample_env_def QuoteJSONString_def
        escape_char_def)
  have "calls (handler sample_platform sample_env ?ev3) =
      [book_request sample_env ''Basic c2tfbGl2ZV85ZjI6'' (JNumber ''Infinity'')
         (JString ''tok-123'')]"
    using c f by (simp add: handler_book [OF a3 h(1)] book_def)
  then have three: "map req_body (calls (handler sample_platform sample_env ?ev3)) =
      [Some ''{\"objects\":[null],\"holdToken\":\"tok-123\"}'']"
    by (simp add: book_request_def QuoteJSONString_def escape_char_def)
  have "handler sample_platform snowman_env ?ev4 =
      \<lparr>response = error_response ''Invalid character'',
       calls = [], logged = [''Invalid character'']\<rparr>"
    using d by (simp add: handler_book [OF a4 h(2)] book_def)
  then have four: "handler sample_platform snowman_env ?ev4 =
      \<lparr>response =
         \<lparr>statusCode = 500, res_headers = Some corsHeaders,
          res_body = ''{\"error\":\"Invalid character\"}''\<rparr>,
       calls = [], logged = [''Invalid character'']\<rparr>"
    by (simp add: error_response_def QuoteJSONString_def escape_char_def)
  have e: "SEATSIO_SECRET_KEY snowman_env = Some (units ''sk_'' @ [0x2603])"
    by (simp add: snowman_env_def)
  have t2: "truthy (Some ?s2)" and t3: "truthy (Some (JNumber ''Infinity''))"
    by simp_all
  show ?thesis
    using a1 a2 a3 a4 h(1) [of \<open>''{"action":"bookSeat","seatId":"","holdToken":"tok-123"}''\<close>]
      h(1) [of \<open>''{"action":"bookSeat","seatId":{"toString":1},"holdToken":"tok-123"}''\<close>]
      h(1) [of \<open>''{"action":"bookSeat","seatId":1e999,"holdToken":"tok-123"}''\<close>]
      h(2) [of \<open>''{"action":"bookSeat","seatId":"A-12","holdToken":"tok-123"}''\<close>]
      one two three four e f2 t2 t3
    by blast
qed

section \<open>The shape of every answer\<close>

text \<open>What each branch can return without throwing.\<close>

lemma createHoldToken_returns:
  "snd (createHoldToken P e) = Inr r \<Longrightarrow>
   statusCode r = 200 \<and> res_headers r = Some corsHeaders"
  by (auto simp: createHoldToken_def split: sum.splits if_splits)

lemma book_returns:
  "snd (book P e s h) = Inr r \<Longrightarrow> statusCode r = 200 \<and> res_headers r = Some corsHeaders"
  by (auto simp: book_def split: sum.splits if_splits)

lemma bookSeat_returns:
  assumes "snd (bookSeat P e ev b) = Inr r"
  shows "(\<not> authorized e ev \<and>
          r = \<lparr>statusCode = 401, res_headers = None, res_body = ''Unauthorized''\<rparr>) \<or>
         (statusCode r = 200 \<and> res_headers r = Some corsHeaders)"
proof (cases "authorized e ev")
  case False
  then show ?thesis
    using assms by (simp add: bookSeat_def authorized_def)
next
  case True
  then obtain s h where "snd (book P e s h) = Inr r"
    using assms
    by (auto simp: bookSeat_def authorized_def split: sum.splits if_splits option.splits)
  then show ?thesis
    using book_returns by blast
qed

lemma try_block_returns:
  assumes "httpMethod ev \<noteq> ''OPTIONS''" and "snd (try_block P e ev) = Inr r"
  shows "((\<exists>b. action_request P ev b ''bookSeat'') \<and> \<not> authorized e ev \<and>
          r = \<lparr>statusCode = 401, res_headers = None, res_body = ''Unauthorized''\<rparr>) \<or>
         (statusCode r = 200 \<and> res_headers r = Some corsHeaders)"
proof -
  obtain b where b: "JSON_parse P (body_or_default ev) = Inr b"
    using assms(2) by (auto simp: try_block_def split: sum.splits)
  obtain a where a: "get_property b ''action'' = Inr a"
    using assms(2) b by (auto simp: try_block_def split: sum.splits)
  show ?thesis
  proof (cases "a = Some (JString ''createHoldToken'')")
    case True
    then have "snd (createHoldToken P e) = Inr r"
      using assms(2) a b by (simp add: try_block_def)
    then show ?thesis
      using createHoldToken_returns by blast
  next
    case False
    then have book: "a = Some (JString ''bookSeat'')" and r: "snd (bookSeat P e ev b) = Inr r"
      using assms(2) a b by (auto simp: try_block_def split: if_splits)
    have "action_request P ev b ''bookSeat''"
      using assms(1) a b book
      by (auto simp: action_request_def get_property_def split: if_splits)
    then show ?thesis
      using bookSeat_returns [OF r] by blast
  qed
qed

text \<open>The rules of \<open>raises\<close> are the errors of the \<^verbatim>\<open>try\<close> block, all of them.\<close>

lemma raises_try_block:
  "raises P e ev m \<Longrightarrow> httpMethod ev \<noteq> ''OPTIONS'' \<and> snd (try_block P e ev) = Inl m"
proof (induction rule: raises.induct)
  case (line_40_parse m)
  then show ?case by (simp add: try_block_def)
next
  case line_41_null
  then show ?case by (simp add: try_block_def get_property_def)
next
  case (line_49_btoa b m)
  then show ?case
    using try_block_action [where P = P and ev = ev and b = b and a = "''createHoldToken''" and e = e]
    by (simp add: action_request_def createHoldToken_def)
next
  case (line_45_fetch b a m)
  then show ?case
    using try_block_action [where P = P and ev = ev and b = b and a = "''createHoldToken''" and e = e]
    by (simp add: action_request_def createHoldToken_def)
next
  case (line_54_text b a r m)
  then show ?case
    using try_block_action [where P = P and ev = ev and b = b and a = "''createHoldToken''" and e = e]
    by (simp add: action_request_def createHoldToken_def)
next
  case (line_54_throw b a r t)
  then show ?case
    using try_block_action [where P = P and ev = ev and b = b and a = "''createHoldToken''" and e = e]
    by (simp add: action_request_def createHoldToken_def)
next
  case (line_57_body b a r m)
  then show ?case
    using try_block_action [where P = P and ev = ev and b = b and a = "''createHoldToken''" and e = e]
    by (simp add: action_request_def createHoldToken_def response_json_def)
next
  case (line_57_json b a r t m)
  then show ?case
    using try_block_action [where P = P and ev = ev and b = b and a = "''createHoldToken''" and e = e]
    by (simp add: action_request_def createHoldToken_def response_json_def)
next
  case (line_57_null b a r t)
  then show ?case
    using try_block_action [where P = P and ev = ev and b = b and a = "''createHoldToken''" and e = e]
    by (simp add: action_request_def createHoldToken_def response_json_def destructure_def)
next
  case (line_75_throw b)
  then show ?case
    using try_block_action [where P = P and ev = ev and b = b and a = "''bookSeat''" and e = e]
      bookSeat_falsy [OF action_request_not_null [where P = P and ev = ev and b = b
          and a = "''bookSeat''"], where e = e and P = P]
    by (auto simp: action_request_def)
next
  case (line_82_btoa b m)
  then obtain s h where "own_property b ''seatId'' = Some s" "truthy (Some s)"
    "own_property b ''holdToken'' = Some h" "truthy (Some h)"
    by (cases "own_property b ''seatId''"; cases "own_property b ''holdToken''") auto
  then show ?case
    using line_82_btoa try_block_action [where P = P and ev = ev and b = b and a = "''bookSeat''" and e = e]
      bookSeat_truthy [where e = e and ev = ev and b = b and s = s and h = h and P = P]
    by (simp add: action_request_def book_def)
next
  case (line_78_fetch b s h a m)
  then show ?case
    using try_block_action [where P = P and ev = ev and b = b and a = "''bookSeat''" and e = e] bookSeat_truthy [where e = e and ev = ev and b = b and s = s and h = h and P = P]
    by (simp add: action_request_def book_def)
next
  case (line_91_text b s h a r m)
  then show ?case
    using try_block_action [where P = P and ev = ev and b = b and a = "''bookSeat''" and e = e] bookSeat_truthy [where e = e and ev = ev and b = b and s = s and h = h and P = P]
    by (simp add: action_request_def book_def)
next
  case (line_91_throw b s h a r t)
  then show ?case
    using try_block_action [where P = P and ev = ev and b = b and a = "''bookSeat''" and e = e] bookSeat_truthy [where e = e and ev = ev and b = b and s = s and h = h and P = P]
    by (simp add: action_request_def book_def)
next
  case (line_97_template b s h a r m)
  then show ?case
    using try_block_action [where P = P and ev = ev and b = b and a = "''bookSeat''" and e = e] bookSeat_truthy [where e = e and ev = ev and b = b and s = s and h = h and P = P]
    by (simp add: action_request_def book_def)
next
  case (line_102_throw b)
  then show ?case
    by (simp add: try_block_def get_property_def)
qed

lemma createHoldToken_raises:
  assumes "action_request P ev b ''createHoldToken''" and "snd (createHoldToken P e) = Inl m"
  shows "raises P e ev m"
proof (cases "basic_authorization e")
  case (Inl x)
  then show ?thesis
    using assms by (auto simp: createHoldToken_def intro: line_49_btoa)
next
  case a: (Inr a)
  show ?thesis
  proof (cases "fetch P (hold_token_request a)")
    case (Inl x)
    then show ?thesis
      using assms a by (auto simp: createHoldToken_def intro: line_45_fetch)
  next
    case r: (Inr r)
    show ?thesis
    proof (cases "ok r")
      case False
      then show ?thesis
        using assms a r line_54_text [OF assms(1) a r] line_54_throw [OF assms(1) a r]
        by (auto simp: createHoldToken_def split: sum.splits)
    next
      case True
      show ?thesis
      proof (cases "body_text r")
        case (Inl x)
        then show ?thesis
          using assms a r True line_57_body [OF assms(1) a r True]
          by (auto simp: createHoldToken_def response_json_def)
      next
        case t: (Inr t)
        show ?thesis
        proof (cases "JSON_parse P t")
          case (Inl x)
          then show ?thesis
            using assms a r True t line_57_json [OF assms(1) a r True t]
            by (auto simp: createHoldToken_def response_json_def)
        next
          case (Inr j)
          then have "j = JNull"
            using assms a r True t
            by (auto simp: createHoldToken_def response_json_def destructure_def
                split: if_splits)
          then show ?thesis
            using assms a r True t Inr line_57_null [OF assms(1) a r True t]
            by (auto simp: createHoldToken_def response_json_def destructure_def)
        qed
      qed
    qed
  qed
qed

lemma bookSeat_raises:
  assumes "action_request P ev b ''bookSeat''" and "snd (bookSeat P e ev b) = Inl m"
  shows "raises P e ev m"
proof -
  have auth: "authorized e ev"
    using assms(2) by (auto simp: bookSeat_def authorized_def split: if_splits)
  show ?thesis
  proof (cases "truthy (own_property b ''seatId'') \<and> truthy (own_property b ''holdToken'')")
    case False
    then have "\<not> truthy (own_property b ''seatId'') \<or> \<not> truthy (own_property b ''holdToken'')"
      by simp
    then show ?thesis
      using assms bookSeat_falsy [OF action_request_not_null [OF assms(1)] auth, where P = P]
        line_75_throw [OF assms(1) auth]
      by auto
  next
    case True
    then obtain s h where p: "own_property b ''seatId'' = Some s" "truthy (Some s)"
      "own_property b ''holdToken'' = Some h" "truthy (Some h)"
      by (cases "own_property b ''seatId''"; cases "own_property b ''holdToken''") auto
    have m: "snd (book P e s h) = Inl m"
      using assms(2) bookSeat_truthy [OF auth p, where P = P] by simp
    show ?thesis
    proof (cases "basic_authorization e")
      case (Inl x)
      then show ?thesis
        using m True line_82_btoa [OF assms(1) auth _ _ Inl] by (auto simp: book_def)
    next
      case a: (Inr a)
      show ?thesis
      proof (cases "fetch P (book_request e a s h)")
        case (Inl x)
        then show ?thesis
          using m a line_78_fetch [OF assms(1) auth p a Inl] by (auto simp: book_def)
      next
        case r: (Inr r)
        show ?thesis
        proof (cases "ok r")
          case False
          then show ?thesis
            using m a r line_91_text [OF assms(1) auth p a r False]
              line_91_throw [OF assms(1) auth p a r False]
            by (auto simp: book_def split: sum.splits)
        next
          case True
          then show ?thesis
            using m a r line_97_template [OF assms(1) auth p a r True]
            by (auto simp: book_def split: sum.splits)
        qed
      qed
    qed
  qed
qed

lemma try_block_raises:
  assumes "httpMethod ev \<noteq> ''OPTIONS''" and "snd (try_block P e ev) = Inl m"
  shows "raises P e ev m"
proof (cases "JSON_parse P (body_or_default ev)")
  case (Inl x)
  then show ?thesis
    using assms line_40_parse [OF assms(1) Inl] by (simp add: try_block_def)
next
  case b: (Inr b)
  show ?thesis
  proof (cases "b = JNull")
    case True
    then show ?thesis
      using assms b line_41_null [OF assms(1), where P = P and e = e]
      by (simp add: try_block_def get_property_def)
  next
    case False
    show ?thesis
    proof (cases "own_property b ''action'' = Some (JString ''createHoldToken'')")
      case True
      then have a: "action_request P ev b ''createHoldToken''"
        using assms(1) b by (simp add: action_request_def)
      then show ?thesis
        using assms(2) try_block_action [OF a, of e] createHoldToken_raises by simp
    next
      case create: False
      show ?thesis
      proof (cases "own_property b ''action'' = Some (JString ''bookSeat'')")
        case True
        then have a: "action_request P ev b ''bookSeat''"
          using assms(1) b by (simp add: action_request_def)
        then show ?thesis
          using assms(2) try_block_action [OF a, of e] bookSeat_raises by simp
      next
        case book: False
        then show ?thesis
          using assms b False create line_102_throw [OF assms(1) b False create]
          by (simp add: try_block_def get_property_def)
      qed
    qed
  qed
qed

text \<open>
  Claim C5. The handler is a total function of the request: it returns one response.
  Every error thrown in the \<^verbatim>\<open>try\<close> block, at any of the places listed by
  \<open>raises\<close>, a body that is not JSON among them, becomes the answer with status 500,
  the three CORS headers and the body \<^verbatim>\<open>{ error: message }\<close>. Every answer is one of
  four: the 204 of a preflight, a 200, such a 500, each with the three CORS headers, or
  the 401 of a \<^verbatim>\<open>bookSeat\<close> request with a wrong credential, the only answer without
  headers and without the JSON error body.
\<close>

theorem every_failure_caught:
  "(raises P e ev m \<longrightarrow>
      response (handler P e ev) =
        \<lparr>statusCode = 500,
         res_headers = Some
           [(''Access-Control-Allow-Origin'', ''*''),
            (''Access-Control-Allow-Headers'', ''Content-Type, Authorization''),
            (''Access-Control-Allow-Methods'', ''POST, OPTIONS'')],
         res_body = JSON_stringify (JObject [(''error'', JString m)])\<rparr> \<and>
      logged (handler P e ev) = [m]) \<and>
   (httpMethod ev \<noteq> ''OPTIONS'' \<and> JSON_parse P (body_or_default ev) = Inl m \<longrightarrow>
      handler P e ev =
        \<lparr>response =
           \<lparr>statusCode = 500,
            res_headers = Some
              [(''Access-Control-Allow-Origin'', ''*''),
               (''Access-Control-Allow-Headers'', ''Content-Type, Authorization''),
               (''Access-Control-Allow-Methods'', ''POST, OPTIONS'')],
            res_body = JSON_stringify (JObject [(''error'', JString m)])\<rparr>,
         calls = [], logged = [m]\<rparr>) \<and>
   (((\<exists>b. action_request P ev b ''bookSeat'') \<and>
     headers ev ''authorization'' \<noteq> Some (''Bearer '' @ string_of (GHL_WEBHOOK_SECRET e)) \<and>
     response (handler P e ev) =
       \<lparr>statusCode = 401, res_headers = None, res_body = ''Unauthorized''\<rparr>) \<or>
    (res_headers (response (handler P e ev)) = Some
       [(''Access-Control-Allow-Origin'', ''*''),
        (''Access-Control-Allow-Headers'', ''Content-Type, Authorization''),
        (''Access-Control-Allow-Methods'', ''POST, OPTIONS'')] \<and>
     (httpMethod ev = ''OPTIONS'' \<and> statusCode (response (handler P e ev)) = 204 \<and>
        res_body (response (handler P e ev)) = [] \<or>
      statusCode (response (handler P e ev)) = 200 \<or>
      (\<exists>m'. raises P e ev m' \<and> statusCode (response (handler P e ev)) = 500 \<and>
         res_body (response (handler P e ev)) =
           JSON_stringify (JObject [(''error'', JString m')])))))"
proof (intro conjI impI)
  assume "raises P e ev m"
  then have "httpMethod ev \<noteq> ''OPTIONS''" and "snd (try_block P e ev) = Inl m"
    using raises_try_block by blast+
  then show "response (handler P e ev) =
      \<lparr>statusCode = 500,
       res_headers = Some
         [(''Access-Control-Allow-Origin'', ''*''),
          (''Access-Control-Allow-Headers'', ''Content-Type, Authorization''),
          (''Access-Control-Allow-Methods'', ''POST, OPTIONS'')],
       res_body = JSON_stringify (JObject [(''error'', JString m)])\<rparr>"
    and "logged (handler P e ev) = [m]"
    by (cases "try_block P e ev";
        simp add: handler_not_preflight error_response_def corsHeaders_def)+
next
  assume "httpMethod ev \<noteq> ''OPTIONS'' \<and> JSON_parse P (body_or_default ev) = Inl m"
  then show "handler P e ev =
      \<lparr>response =
         \<lparr>statusCode = 500,
          res_headers = Some
            [(''Access-Control-Allow-Origin'', ''*''),
             (''Access-Control-Allow-Headers'', ''Content-Type, Authorization''),
             (''Access-Control-Allow-Methods'', ''POST, OPTIONS'')],
          res_body = JSON_stringify (JObject [(''error'', JString m)])\<rparr>,
       calls = [], logged = [m]\<rparr>"
    by (simp add: handler_not_preflight try_block_def error_response_def corsHeaders_def)
next
  show "((\<exists>b. action_request P ev b ''bookSeat'') \<and>
     headers ev ''authorization'' \<noteq> Some (''Bearer '' @ string_of (GHL_WEBHOOK_SECRET e)) \<and>
     response (handler P e ev) =
       \<lparr>statusCode = 401, res_headers = None, res_body = ''Unauthorized''\<rparr>) \<or>
    (res_headers (response (handler P e ev)) = Some
       [(''Access-Control-Allow-Origin'', ''*''),
        (''Access-Control-Allow-Headers'', ''Content-Type, Authorization''),
        (''Access-Control-Allow-Methods'', ''POST, OPTIONS'')] \<and>
     (httpMethod ev = ''OPTIONS'' \<and> statusCode (response (handler P e ev)) = 204 \<and>
        res_body (response (handler P e ev)) = [] \<or>
      statusCode (response (handler P e ev)) = 200 \<or>
      (\<exists>m'. raises P e ev m' \<and> statusCode (response (handler P e ev)) = 500 \<and>
         res_body (response (handler P e ev)) =
           JSON_stringify (JObject [(''error'', JString m')]))))"
  proof (cases "httpMethod ev = ''OPTIONS''")
    case True
    then show ?thesis
      by (simp add: handler_def corsHeaders_def)
  next
    case False
    obtain cs res where t: "try_block P e ev = (cs, res)"
      by (cases "try_block P e ev")
    show ?thesis
    proof (cases res)
      case (Inl m')
      then have "raises P e ev m'"
        using False t try_block_raises [where ev = ev and P = P and e = e and m = m'] by simp
      then show ?thesis
        using False t Inl
        by (auto simp: handler_not_preflight error_response_def corsHeaders_def)
    next
      case (Inr r)
      then have "response (handler P e ev) = r"
        using False t by (simp add: handler_not_preflight)
      moreover have "snd (try_block P e ev) = Inr r"
        using t Inr by simp
      ultimately show ?thesis
        using try_block_returns [OF False, where P = P and e = e and r = r]
        by (auto simp: corsHeaders_def authorized_def bearer_def)
    qed
  qed
qed

text \<open>
  A body that is not JSON, and a \<^verbatim>\<open>createHoldToken\<close> request under a secret key that
  \<^verbatim>\<open>btoa\<close> cannot encode.
\<close>

theorem every_failure_caught_witness:
  \<open>httpMethod (browser_post (Some ''{bad'')) \<noteq> ''OPTIONS'' \<and>
   JSON_parse sample_platform (body_or_default (browser_post (Some ''{bad''))) =
     Inl ''Unexpected token b in JSON at position 1'' \<and>
   raises sample_platform sample_env (browser_post (Some ''{bad''))
     ''Unexpected token b in JSON at position 1'' \<and>
   handler sample_platform sample_env (browser_post (Some ''{bad'')) =
     \<lparr>response =
        \<lparr>statusCode = 500,
         res_headers = Some
           [(''Access-Control-Allow-Origin'', ''*''),
            (''Access-Control-Allow-Headers'', ''Content-Type, Authorization''),
            (''Access-Control-Allow-Methods'', ''POST, OPTIONS'')],
         res_body = ''{"error":"Unexpected token b in JSON at position 1"}''\<rparr>,
      calls = [], logged = [''Unexpected token b in JSON at position 1'']\<rparr> \<and>
   raises sample_platform snowman_env (browser_post (Some ''{"action":"createHoldToken"}''))
     ''Invalid character'' \<and>
   response (handler sample_platform snowman_env
     (browser_post (Some ''{"action":"createHoldToken"}''))) =
     \<lparr>statusCode = 500,
      res_headers = Some
        [(''Access-Control-Allow-Origin'', ''*''),
         (''Access-Control-Allow-Headers'', ''Content-Type, Authorization''),
         (''Access-Control-Allow-Methods'', ''POST, OPTIONS'')],
      res_body = ''{"error":"Invalid character"}''\<rparr>\<close>
proof -
  let ?ev = \<open>browser_post (Some ''{bad'')\<close>
  let ?ev2 = \<open>browser_post (Some ''{"action":"createHoldToken"}'')\<close>
  have m: "httpMethod ?ev \<noteq> ''OPTIONS''"
    by (simp add: browser_post_def)
  have p: "JSON_parse sample_platform (body_or_default ?ev) =
      Inl ''Unexpected token b in JSON at position 1''"
    by (simp add: browser_post_def sample_platform_def sample_parse_def body_or_default_def)
  have r1: "raises sample_platform sample_env ?ev ''Unexpected token b in JSON at position 1''"
    using m p by (rule line_40_parse)
  have a: "action_request sample_platform ?ev2
      (JObject [(''action'', JString ''createHoldToken'')]) ''createHoldToken''"
    by (simp add: action_request_def browser_post_def sample_platform_def
        sample_parse_def body_or_default_def)
  have d: "basic_authorization snowman_env = Inl ''Invalid character''"
    by (simp add: basic_authorization_def snowman_env_def btoa_def latin1_def units_def)
  have r2: "raises sample_platform snowman_env ?ev2 ''Invalid character''"
    using a d by (rule line_49_btoa)
  show ?thesis
    using m p r1 r2
      every_failure_caught [where P = sample_platform and e = sample_env and ev = ?ev
        and m = "''Unexpected token b in JSON at position 1''"]
      every_failure_caught [where P = sample_platform and e = snowman_env and ev = ?ev2
        and m = "''Invalid character''"]
    by (simp add: QuoteJSONString_def escape_char_def)
qed

section \<open>The secrets and the response\<close>

text \<open>
  The response is the value of the \<^verbatim>\<open>try\<close> block, or the answer of the \<^verbatim>\<open>catch\<close>
  clause.
\<close>

lemma response_handler:
  "response (handler P e ev) =
     (if httpMethod ev = ''OPTIONS''
      then \<lparr>statusCode = 204, res_headers = Some corsHeaders, res_body = []\<rparr>
      else (case snd (try_block P e ev) of Inr r \<Rightarrow> r | Inl m \<Rightarrow> error_response m))"
  by (cases "try_block P e ev") (auto simp: handler_def split: sum.splits)

text \<open>The colon that line 49 appends is encoded by \<^verbatim>\<open>btoa\<close>; the secret key decides.\<close>

lemma basic_authorization_latin1:
  "basic_authorization e =
     (if latin1 (key_text (SEATSIO_SECRET_KEY e))
      then Inr (''Basic '' @ base64 (map unat (key_text (SEATSIO_SECRET_KEY e) @ units '':'')))
      else Inl ''Invalid character'')"
  by (simp add: basic_authorization_def btoa_def latin1_def units_def)

text \<open>With the upstream's answer fixed, what each branch returns or throws.\<close>

lemma createHoldToken_same:
  assumes "fetch P = (\<lambda>q. u)" and "SEATSIO_EVENT_KEY e = SEATSIO_EVENT_KEY e'"
    and "latin1 (key_text (SEATSIO_SECRET_KEY e)) \<longleftrightarrow> latin1 (key_text (SEATSIO_SECRET_KEY e'))"
  shows "snd (createHoldToken P e) = snd (createHoldToken P e')"
  using assms
  by (simp add: createHoldToken_def basic_authorization_latin1 split: sum.splits)

lemma book_same:
  assumes "fetch P = (\<lambda>q. u)"
    and "latin1 (key_text (SEATSIO_SECRET_KEY e)) \<longleftrightarrow> latin1 (key_text (SEATSIO_SECRET_KEY e'))"
  shows "snd (book P e s h) = snd (book P e' s h)"
  using assms by (simp add: book_def basic_authorization_latin1)

lemma bookSeat_same:
  assumes "fetch P = (\<lambda>q. u)" and "authorized e ev \<longleftrightarrow> authorized e' ev"
    and "latin1 (key_text (SEATSIO_SECRET_KEY e)) \<longleftrightarrow> latin1 (key_text (SEATSIO_SECRET_KEY e'))"
  shows "snd (bookSeat P e ev b) = snd (bookSeat P e' ev b)"
proof (cases "authorized e ev")
  case False
  then show ?thesis
    using assms(2) by (simp add: bookSeat_def authorized_def)
next
  case True
  then have "authorized e' ev"
    using assms(2) by simp
  then show ?thesis
    using True book_same [OF assms(1,3)]
    by (simp add: bookSeat_def authorized_def split: sum.splits option.splits)
qed

text \<open>
  Claim C9, amended. Hold the request and the upstream's answer fixed and change the
  three secrets. The response stays the same whenever the change leaves two tests as
  they were, the comparison of line 69 and whether \<^verbatim>\<open>btoa\<close> can encode the secret key
  (no character above U+00FF), and either the event key is unchanged or the request is
  not a \<^verbatim>\<open>createHoldToken\<close> request. So the response depends on the reservation-API
  secret key only through that one test, on the webhook secret only through the
  comparison, and on the event key only in the answer to \<^verbatim>\<open>createHoldToken\<close>, which
  returns it as \<^verbatim>\<open>eventKey\<close>.
\<close>

theorem secrets_do_not_flow:
  assumes "fetch P = (\<lambda>q. u)"
    and "headers ev ''authorization'' = Some (''Bearer '' @ string_of (GHL_WEBHOOK_SECRET e)) \<longleftrightarrow>
         headers ev ''authorization'' = Some (''Bearer '' @ string_of (GHL_WEBHOOK_SECRET e'))"
    and "(\<forall>c \<in> set (key_text (SEATSIO_SECRET_KEY e)). c \<le> 0xFF) \<longleftrightarrow>
         (\<forall>c \<in> set (key_text (SEATSIO_SECRET_KEY e')). c \<le> 0xFF)"
    and "SEATSIO_EVENT_KEY e = SEATSIO_EVENT_KEY e' \<or>
         \<not> (\<exists>b. action_request P ev b ''createHoldToken'')"
  shows "response (handler P e ev) = response (handler P e' ev)"
proof (cases "httpMethod ev = ''OPTIONS''")
  case True
  then show ?thesis
    by (simp add: response_handler)
next
  case False
  have auth: "authorized e ev \<longleftrightarrow> authorized e' ev"
    using assms(2) by (simp add: authorized_def bearer_def)
  have key: "latin1 (key_text (SEATSIO_SECRET_KEY e)) \<longleftrightarrow>
      latin1 (key_text (SEATSIO_SECRET_KEY e'))"
    using assms(3) by (simp add: latin1_def)
  have "snd (try_block P e ev) = snd (try_block P e' ev)"
  proof (cases "JSON_parse P (body_or_default ev)")
    case (Inl m)
    then show ?thesis
      by (simp add: try_block_def)
  next
    case b: (Inr b)
    show ?thesis
    proof (cases "get_property b ''action''")
      case (Inl m)
      then show ?thesis
        using b by (simp add: try_block_def)
    next
      case (Inr a)
      show ?thesis
      proof (cases "a = Some (JString ''createHoldToken'')")
        case True
        then have "action_request P ev b ''createHoldToken''"
          using False Inr b
          by (auto simp: action_request_def get_property_def split: if_splits)
        then have "SEATSIO_EVENT_KEY e = SEATSIO_EVENT_KEY e'"
          using assms(4) by blast
        then show ?thesis
          using True Inr b createHoldToken_same [OF assms(1) _ key]
          by (simp add: try_block_def)
      next
        case other: False
        then show ?thesis
          using Inr b bookSeat_same [OF assms(1) auth key, where b = b]
          by (simp add: try_block_def)
      qed
    qed
  qed
  then show ?thesis
    by (simp add: response_handler)
qed

text \<open>
  A hold token issued under two secret keys and two webhook secrets, and a seat booked
  under two secret keys and two event keys: the same answer each time.
\<close>

theorem secrets_do_not_flow_witness:
  \<open>fetch issuing_platform = (\<lambda>q. Inr \<lparr>ok = True, body_text = Inr ''{"holdToken":"tok-123"}''\<rparr>) \<and>
   response (handler issuing_platform sample_env
     (browser_post (Some ''{"action":"createHoldToken"}''))) =
   response (handler issuing_platform
     \<lparr>SEATSIO_SECRET_KEY = Some (units ''sk_test_000''), SEATSIO_EVENT_KEY = Some ''spring-gala'',
      GHL_WEBHOOK_SECRET = Some ''whsec_other''\<rparr>
     (browser_post (Some ''{"action":"createHoldToken"}''))) \<and>
   res_body (response (handler issuing_platform sample_env
     (browser_post (Some ''{"action":"createHoldToken"}'')))) =
     ''{"holdToken":"tok-123","eventKey":"spring-gala"}'' \<and>
   SEATSIO_SECRET_KEY other_env \<noteq> SEATSIO_SECRET_KEY sample_env \<and>
   SEATSIO_EVENT_KEY other_env \<noteq> SEATSIO_EVENT_KEY sample_env \<and>
   \<not> (\<exists>b. action_request issuing_platform
          (webhook_post ''{"action":"bookSeat","seatId":"A-12","holdToken":"tok-123"}'') b
          ''createHoldToken'') \<and>
   response (handler issuing_platform sample_env
     (webhook_post ''{"action":"bookSeat","seatId":"A-12","holdToken":"tok-123"}'')) =
   response (handler issuing_platform other_env
     (webhook_post ''{"action":"bookSeat","seatId":"A-12","holdToken":"tok-123"}'')) \<and>
   res_body (response (handler issuing_platform other_env
     (webhook_post ''{"action":"bookSeat","seatId":"A-12","holdToken":"tok-123"}''))) =
     ''{"success":true,"message":"Seat A-12 booked successfully."}''\<close>
proof -
  let ?ev1 = \<open>browser_post (Some ''{"action":"createHoldToken"}'')\<close>
  let ?ev2 = \<open>webhook_post ''{"action":"bookSeat","seatId":"A-12","holdToken":"tok-123"}''\<close>
  let ?b2 = \<open>JObject [(''action'', JString ''bookSeat''), (''seatId'', JString ''A-12''),
                     (''holdToken'', JString ''tok-123'')]\<close>
  let ?e' = \<open>\<lparr>SEATSIO_SECRET_KEY = Some (units ''sk_test_000''),
      SEATSIO_EVENT_KEY = Some ''spring-gala'', GHL_WEBHOOK_SECRET = Some ''whsec_other''\<rparr>\<close>
  let ?u = \<open>Inr \<lparr>ok = True, body_text = Inr ''{"holdToken":"tok-123"}''\<rparr> :: string + upstream\<close>
  have f: "fetch issuing_platform = (\<lambda>q. ?u)"
    by (simp add: issuing_platform_def issuing_fetch_def fun_eq_iff)
  have h1: "headers ?ev1 ''authorization'' =
        Some (''Bearer '' @ string_of (GHL_WEBHOOK_SECRET sample_env)) \<longleftrightarrow>
      headers ?ev1 ''authorization'' = Some (''Bearer '' @ string_of (GHL_WEBHOOK_SECRET ?e'))"
    by (simp add: browser_post_def)
  have h2: "headers ?ev2 ''authorization'' =
        Some (''Bearer '' @ string_of (GHL_WEBHOOK_SECRET sample_env)) \<longleftrightarrow>
      headers ?ev2 ''authorization'' = Some (''Bearer '' @ string_of (GHL_WEBHOOK_SECRET other_env))"
    by (simp add: webhook_post_def sample_env_def other_env_def)
  have k1: "(\<forall>c \<in> set (key_text (SEATSIO_SECRET_KEY sample_env)). c \<le> 0xFF) \<longleftrightarrow>
      (\<forall>c \<in> set (key_text (SEATSIO_SECRET_KEY ?e')). c \<le> 0xFF)"
    by (simp add: sample_env_def units_def)
  have k2: "(\<forall>c \<in> set (key_text (SEATSIO_SECRET_KEY sample_env)). c \<le> 0xFF) \<longleftrightarrow>
      (\<forall>c \<in> set (key_text (SEATSIO_SECRET_KEY other_env)). c \<le> 0xFF)"
    by (simp add: sample_env_def other_env_def units_def)
  have v1: "SEATSIO_EVENT_KEY sample_env = SEATSIO_EVENT_KEY ?e' \<or>
      \<not> (\<exists>b. action_request issuing_platform ?ev1 b ''createHoldToken'')"
    by (simp add: sample_env_def)
  have c: "\<not> (\<exists>b. action_request issuing_platform ?ev2 b ''createHoldToken'')"
    by (simp add: action_request_def webhook_post_def issuing_platform_def
        sample_parse_def body_or_default_def)
  then have v2: "SEATSIO_EVENT_KEY sample_env = SEATSIO_EVENT_KEY other_env \<or>
      \<not> (\<exists>b. action_request issuing_platform ?ev2 b ''createHoldToken'')"
    by simp
  have d: "SEATSIO_SECRET_KEY other_env \<noteq> SEATSIO_SECRET_KEY sample_env"
    "SEATSIO_EVENT_KEY other_env \<noteq> SEATSIO_EVENT_KEY sample_env"
    by (simp_all add: sample_env_def other_env_def units_def)
  have a1: "action_request issuing_platform ?ev1
      (JObject [(''action'', JString ''createHoldToken'')]) ''createHoldToken''"
    by (simp add: action_request_def browser_post_def issuing_platform_def
        sample_parse_def body_or_default_def)
  have "createHoldToken issuing_platform sample_env =
      ([hold_token_request ''Basic c2tfbGl2ZV85ZjI6''],
       Inr \<lparr>statusCode = 200, res_headers = Some corsHeaders,
            res_body = ''{\"holdToken\":\"tok-123\",\"eventKey\":\"spring-gala\"}''\<rparr>)"
    by (simp add: createHoldToken_def basic_authorization_def btoa_def latin1_def units_def
        base64_digit_def issuing_platform_def issuing_fetch_def response_json_def
        sample_parse_def destructure_def sample_env_def QuoteJSONString_def escape_char_def)
  then have b1: "res_body (response (handler issuing_platform sample_env ?ev1)) =
      ''{\"holdToken\":\"tok-123\",\"eventKey\":\"spring-gala\"}''"
    by (simp add: handler_createHoldToken [OF a1])
  have a2: "action_request issuing_platform ?ev2 ?b2 ''bookSeat''"
    by (simp add: action_request_def webhook_post_def issuing_platform_def
        sample_parse_def body_or_default_def)
  have au: "authorized other_env ?ev2"
    by (simp add: authorized_def bearer_def webhook_post_def other_env_def)
  have "bookSeat issuing_platform other_env ?ev2 ?b2 =
      book issuing_platform other_env (JString ''A-12'') (JString ''tok-123'')"
    using au by (simp add: bookSeat_truthy)
  moreover have "snd (book issuing_platform other_env (JString ''A-12'') (JString ''tok-123'')) =
      Inr \<lparr>statusCode = 200, res_headers = Some corsHeaders,
           res_body = ''{\"success\":true,\"message\":\"Seat A-12 booked successfully.\"}''\<rparr>"
    by (simp add: book_def basic_authorization_def btoa_def latin1_def units_def
        other_env_def issuing_platform_def issuing_fetch_def QuoteJSONString_def
        escape_char_def)
  ultimately have b2: "res_body (response (handler issuing_platform other_env ?ev2)) =
      ''{\"success\":true,\"message\":\"Seat A-12 booked successfully.\"}''"
    by (cases "book issuing_platform other_env (JString ''A-12'') (JString ''tok-123'')")
      (simp add: handler_bookSeat [OF a2])
  show ?thesis
    using f c d b1 b2
      secrets_do_not_flow [OF f h1 k1 v1]
      secrets_do_not_flow [OF f h2 k2 v2]
    by simp
qed

text \<open>
  The claim as written fails: the answer to a \<^verbatim>\<open>createHoldToken\<close> request that the
  upstream accepts carries the configured event key in its body.
\<close>

theorem secrets_never_echoed_counterexample:
  \<open>SEATSIO_EVENT_KEY sample_env = Some ''spring-gala'' \<and>
   res_body (response (handler sample_platform sample_env
     (browser_post (Some ''{"action":"createHoldToken"}'')))) =
     ''{"holdToken":"tok-123","eventKey":"spring-gala"}'' \<and>
   sublist ''spring-gala'' (res_body (response (handler sample_platform sample_env
     (browser_post (Some ''{"action":"createHoldToken"}'')))))\<close>
proof -
  let ?ev = \<open>browser_post (Some ''{"action":"createHoldToken"}'')\<close>
  have a: "action_request sample_platform ?ev
      (JObject [(''action'', JString ''createHoldToken'')]) ''createHoldToken''"
    by (simp add: action_request_def browser_post_def sample_platform_def
        sample_parse_def body_or_default_def)
  have "createHoldToken sample_platform sample_env =
      ([hold_token_request ''Basic c2tfbGl2ZV85ZjI6''],
       Inr \<lparr>statusCode = 200, res_headers = Some corsHeaders,
            res_body = ''{\"holdToken\":\"tok-123\",\"eventKey\":\"spring-gala\"}''\<rparr>)"
    by (simp add: createHoldToken_def basic_authorization_def btoa_def latin1_def units_def
        base64_digit_def sample_platform_def accepting_fetch_def hold_token_request_def
        response_json_def sample_parse_def destructure_def sample_env_def
        QuoteJSONString_def escape_char_def)
  then have b: "res_body (response (handler sample_platform sample_env ?ev)) =
      ''{\"holdToken\":\"tok-123\",\"eventKey\":\"spring-gala\"}''"
    by (simp add: handler_createHoldToken [OF a])
  have "sublist ''spring-gala''
      (''{\"holdToken\":\"tok-123\",\"eventKey\":\"'' @ ''spring-gala'' @ ''\"}'')"
    by (rule sublist_appendI)
  then have "sublist ''spring-gala'' ''{\"holdToken\":\"tok-123\",\"eventKey\":\"spring-gala\"}''"
    by simp
  then show ?thesis
    using b by (simp add: sample_env_def)
qed

end
